theory Spec2Isabelle
  imports Complex_Main
begin

section \<open>Tensors\<close>

text \<open>
  A four-dimensional tensor (N x C x H x W) is a nested list. Python exceptions that the
  modelled code can run into are values of \<open>exn\<close>.
\<close>

type_synonym 'a tensor3 = "'a list list list"
type_synonym 'a tensor4 = "'a list list list list"

datatype exn = AttributeError | RuntimeError | ValueError | TypeError

definition has_shape3 :: "'a tensor3 \<Rightarrow> nat \<Rightarrow> nat \<Rightarrow> nat \<Rightarrow> bool" where
  "has_shape3 img c h w =
     (length img = c \<and> list_all (\<lambda>ch. length ch = h \<and> list_all (\<lambda>row. length row = w) ch) img)"

definition has_shape :: "'a tensor4 \<Rightarrow> nat \<Rightarrow> nat \<Rightarrow> nat \<Rightarrow> nat \<Rightarrow> bool" where
  "has_shape x n c h w = (length x = n \<and> list_all (\<lambda>img. has_shape3 img c h w) x)"

text \<open>\<open>labels.size(0)\<close>, \<open>labels.size(2)\<close> and \<open>labels.size(3)\<close>.\<close>

definition size0 :: "'a tensor4 \<Rightarrow> nat" where
  "size0 x = length x"

definition size2 :: "'a tensor4 \<Rightarrow> nat" where
  "size2 x = (case x of [] \<Rightarrow> 0 | img # _ \<Rightarrow> (case img of [] \<Rightarrow> 0 | ch # _ \<Rightarrow> length ch))"

definition size3 :: "'a tensor4 \<Rightarrow> nat" where
  "size3 x = (case x of [] \<Rightarrow> 0 | img # _ \<Rightarrow>
               (case img of [] \<Rightarrow> 0 | ch # _ \<Rightarrow> (case ch of [] \<Rightarrow> 0 | row # _ \<Rightarrow> length row)))"

text \<open>\<open>torch.FloatTensor(n, c, h, w).zero_()\<close>\<close>

definition zeros4 :: "nat \<Rightarrow> nat \<Rightarrow> nat \<Rightarrow> nat \<Rightarrow> real tensor4" where
  "zeros4 n c h w = replicate n (replicate c (replicate h (replicate w 0)))"

subsection \<open>scatter\_ along dimension 1\<close>

text \<open>
  \<open>self.scatter_(1, index, value)\<close> performs, for every position \<open>(n, c, a, b)\<close> of
  \<open>index\<close>, the write \<open>self[n][index[n][c][a][b]][a][b] = value\<close>; an index outside
  \<open>[0, self.size(1))\<close> is a RuntimeError. The writes of one image are a fold over
  the positions of its index image.
\<close>

definition write3 :: "real tensor3 \<Rightarrow> nat \<Rightarrow> nat \<Rightarrow> nat \<Rightarrow> real \<Rightarrow> real tensor3" where
  "write3 img k a b v = img[k := (img ! k)[a := (img ! k ! a)[b := v]]]"

definition positions3 :: "'a tensor3 \<Rightarrow> (nat \<times> nat \<times> nat) list" where
  "positions3 idx =
     concat (map (\<lambda>c. concat (map (\<lambda>a. map (\<lambda>b. (c, a, b)) [0..<length (idx ! c ! a)])
                                   [0..<length (idx ! c)]))
                 [0..<length idx])"

definition scatter_image :: "real tensor3 \<Rightarrow> int tensor3 \<Rightarrow> real \<Rightarrow> real tensor3" where
  "scatter_image img idx v =
     fold (\<lambda>(c, a, b) acc. write3 acc (nat (idx ! c ! a ! b)) a b v) (positions3 idx) img"

definition index_ok :: "real tensor3 \<Rightarrow> int tensor3 \<Rightarrow> bool" where
  "index_ok img idx = list_all (list_all (list_all (\<lambda>k. 0 \<le> k \<and> k < int (length img)))) idx"

definition scatter_dim1 :: "real tensor4 \<Rightarrow> int tensor4 \<Rightarrow> real \<Rightarrow> exn + real tensor4" where
  "scatter_dim1 self index v =
     (if list_all (\<lambda>(img, idx). index_ok img idx) (zip self index)
      then Inr (map (\<lambda>(img, idx). scatter_image img idx v) (zip self index))
      else Inl RuntimeError)"

subsection \<open>make\_one\_hot\<close>

definition make_one_hot :: "int tensor4 \<Rightarrow> nat \<Rightarrow> string \<Rightarrow> exn + real tensor4" where
  "make_one_hot labels num_classes device =
     (let one_hot =
            (if device = ''cuda''
             then zeros4 (size0 labels) num_classes (size2 labels) (size3 labels)
             else zeros4 (size0 labels) num_classes (size2 labels) (size3 labels));
          target = scatter_dim1 one_hot labels 1
      in target)"


section \<open>Layers of the tensor library\<close>

text \<open>
  The layers are those of the external tensor library; they are modelled over the reals by
  their documented meaning, as far as the model definition in \<open>s11net.py\<close> uses them.
  An output size is the library's formula
  \<open>floor((size + 2 * padding - kernel_size) / stride) + 1\<close>, computed over the integers.
  A layer raises where the library rejects its input: a convolution on a wrong number of
  channels or on a padded image smaller than the kernel, a pooling whose output would be
  empty, a batch normalisation on a wrong number of channels or, in training mode, on a
  single value per channel. A nested list does not record the sizes behind an empty
  dimension; the statements below are about tensors without an empty dimension.
\<close>

definition height :: "'a tensor3 \<Rightarrow> nat" where
  "height img = (case img of [] \<Rightarrow> 0 | ch # _ \<Rightarrow> length ch)"

definition row_length :: "'a list list \<Rightarrow> nat" where
  "row_length ch = (case ch of [] \<Rightarrow> 0 | row # _ \<Rightarrow> length row)"

definition width :: "'a tensor3 \<Rightarrow> nat" where
  "width img = (case img of [] \<Rightarrow> 0 | ch # _ \<Rightarrow> row_length ch)"

subsection \<open>nn.Conv2d without bias\<close>

record Conv2d =
  in_channels :: nat
  out_channels :: nat
  kernel_size :: nat
  padding :: nat
  stride :: nat
  weight :: "real tensor4"

text \<open>The constructor; the initial weight (out x in x k x k) is drawn by the library.\<close>

definition nn_Conv2d :: "nat \<Rightarrow> nat \<Rightarrow> nat \<Rightarrow> nat \<Rightarrow> nat \<Rightarrow> real tensor4 \<Rightarrow> Conv2d" where
  "nn_Conv2d inp outp k p s w =
     \<lparr>in_channels = inp, out_channels = outp, kernel_size = k, padding = p, stride = s, weight = w\<rparr>"

definition conv_out_size :: "Conv2d \<Rightarrow> nat \<Rightarrow> nat" where
  "conv_out_size cv sz =
     nat ((int sz + 2 * int (padding cv) - int (kernel_size cv)) div int (stride cv) + 1)"

text \<open>Reading a channel that is padded with \<open>p\<close> zeros on every side.\<close>

definition padded_at :: "real list list \<Rightarrow> nat \<Rightarrow> nat \<Rightarrow> nat \<Rightarrow> real" where
  "padded_at ch p i j =
     (if p \<le> i \<and> i - p < length ch \<and> p \<le> j \<and> j - p < length (ch ! (i - p))
      then ch ! (i - p) ! (j - p) else 0)"

definition conv2d_image :: "Conv2d \<Rightarrow> real tensor3 \<Rightarrow> real tensor3" where
  "conv2d_image cv img =
     map (\<lambda>oc. map (\<lambda>i. map (\<lambda>j.
            (\<Sum>c\<leftarrow>[0..<in_channels cv]. \<Sum>di\<leftarrow>[0..<kernel_size cv]. \<Sum>dj\<leftarrow>[0..<kernel_size cv].
               weight cv ! oc ! c ! di ! dj *
               padded_at (img ! c) (padding cv) (i * stride cv + di) (j * stride cv + dj)))
          [0..<conv_out_size cv (width img)])
        [0..<conv_out_size cv (height img)])
      [0..<out_channels cv]"

text \<open>
  The input is accepted when every image has \<open>in_channels\<close> channels and every padded
  channel is at least as large as the kernel; otherwise the library raises RuntimeError.
\<close>

definition conv2d_accepts :: "Conv2d \<Rightarrow> real tensor3 \<Rightarrow> bool" where
  "conv2d_accepts cv img =
     (length img = in_channels cv \<and>
      list_all (\<lambda>ch. kernel_size cv \<le> length ch + 2 * padding cv \<and>
                     kernel_size cv \<le> row_length ch + 2 * padding cv) img)"

definition Conv2d_forward :: "Conv2d \<Rightarrow> real tensor4 \<Rightarrow> exn + real tensor4" where
  "Conv2d_forward cv x =
     (if list_all (conv2d_accepts cv) x then Inr (map (conv2d_image cv) x) else Inl RuntimeError)"

subsection \<open>nn.BatchNorm2d\<close>

record BatchNorm2d =
  num_features :: nat
  bn_weight :: "real list"
  bn_bias :: "real list"
  running_mean :: "real list"
  running_var :: "real list"
  eps :: real
  bn_training :: bool

definition nn_BatchNorm2d :: "nat \<Rightarrow> BatchNorm2d" where
  "nn_BatchNorm2d planes =
     \<lparr>num_features = planes, bn_weight = replicate planes 1, bn_bias = replicate planes 0,
      running_mean = replicate planes 0, running_var = replicate planes 1,
      eps = 1 / 100000, bn_training = True\<rparr>"

definition channel_values :: "real tensor4 \<Rightarrow> nat \<Rightarrow> real list" where
  "channel_values x c = concat (concat (map (\<lambda>img. img ! c) x))"

definition batch_mean :: "real list \<Rightarrow> real" where
  "batch_mean vs = sum_list vs / real (length vs)"

definition batch_var :: "real list \<Rightarrow> real" where
  "batch_var vs = (\<Sum>v\<leftarrow>vs. (v - batch_mean vs)\<^sup>2) / real (length vs)"

text \<open>
  The tensor returned by the layer: every entry of channel \<open>c\<close> is normalised with the
  statistics of that channel over the batch (training mode) or with the running
  statistics (evaluation mode), then scaled and shifted. The update of the running
  statistics in training mode does not enter the returned tensor.
\<close>

definition batch_norm_output :: "BatchNorm2d \<Rightarrow> real tensor4 \<Rightarrow> real tensor4" where
  "batch_norm_output bn x =
     map (\<lambda>img. map (\<lambda>(c, ch).
            (let m = (if bn_training bn then batch_mean (channel_values x c) else running_mean bn ! c);
                 v = (if bn_training bn then batch_var (channel_values x c) else running_var bn ! c)
             in map (map (\<lambda>e. (e - m) / sqrt (v + eps bn) * bn_weight bn ! c + bn_bias bn ! c)) ch))
          (enumerate 0 img)) x"

text \<open>
  In training mode the layer first raises ValueError when a channel holds a single value,
  that is when \<open>N * H * W = 1\<close>; in either mode the library raises RuntimeError when the
  input does not have \<open>num_features\<close> channels.
\<close>

definition BatchNorm2d_forward :: "BatchNorm2d \<Rightarrow> real tensor4 \<Rightarrow> exn + real tensor4" where
  "BatchNorm2d_forward bn x =
     (if bn_training bn \<and> size0 x * size2 x * size3 x = 1 then Inl ValueError
      else if \<not> list_all (\<lambda>img. length img = num_features bn) x then Inl RuntimeError
      else Inr (batch_norm_output bn x))"

subsection \<open>F.relu, torch.add and nn.MaxPool2d\<close>

definition F_relu :: "real tensor4 \<Rightarrow> real tensor4" where
  "F_relu x = map (map (map (map (\<lambda>v. max 0 v)))) x"

text \<open>\<open>torch.add\<close> of two tensors of one shape, the only use the model makes of it.\<close>

definition torch_add :: "real tensor4 \<Rightarrow> real tensor4 \<Rightarrow> real tensor4" where
  "torch_add x y = map2 (map2 (map2 (map2 (+)))) x y"

record MaxPool2d =
  pool_size :: nat


definition window_max :: "real list list \<Rightarrow> nat \<Rightarrow> nat \<Rightarrow> nat \<Rightarrow> real" where
  "window_max ch k i j =
     (case concat (map (\<lambda>di. map (\<lambda>dj. ch ! (i * k + di) ! (j * k + dj)) [0..<k]) [0..<k]) of
        [] \<Rightarrow> 0
      | v # vs \<Rightarrow> fold max vs v)"

definition max_pool2d_output :: "MaxPool2d \<Rightarrow> real tensor4 \<Rightarrow> real tensor4" where
  "max_pool2d_output mp x =
     map (map (\<lambda>ch. map (\<lambda>i. map (\<lambda>j. window_max ch (pool_size mp) i j)
                               [0..<row_length ch div pool_size mp])
                      [0..<length ch div pool_size mp])) x"

text \<open>The library raises RuntimeError when the output of a channel would be empty.\<close>

definition MaxPool2d_forward :: "MaxPool2d \<Rightarrow> real tensor4 \<Rightarrow> exn + real tensor4" where
  "MaxPool2d_forward mp x =
     (if list_all (list_all (\<lambda>ch. 0 < length ch div pool_size mp \<and>
                                    0 < row_length ch div pool_size mp)) x
      then Inr (max_pool2d_output mp x)
      else Inl RuntimeError)"

section \<open>The S11Net model\<close>

subsection \<open>ResBlock\<close>

record ResBlock =
  conv1 :: Conv2d
  bn1 :: BatchNorm2d
  conv2 :: Conv2d
  bn2 :: BatchNorm2d

definition ResBlock_init :: "nat \<Rightarrow> real tensor4 \<Rightarrow> real tensor4 \<Rightarrow> ResBlock" where
  "ResBlock_init planes w1 w2 =
     \<lparr>conv1 = nn_Conv2d planes planes 3 1 1 w1,
      bn1 = nn_BatchNorm2d planes,
      conv2 = nn_Conv2d planes planes 3 1 1 w2,
      bn2 = nn_BatchNorm2d planes\<rparr>"

text \<open>An exception of a layer ends \<open>forward\<close>.\<close>

definition ResBlock_forward :: "ResBlock \<Rightarrow> real tensor4 \<Rightarrow> exn + real tensor4" where
  "ResBlock_forward self x =
     (case Conv2d_forward (conv1 self) x of
        Inl e \<Rightarrow> Inl e
      | Inr a \<Rightarrow>
     (case BatchNorm2d_forward (bn1 self) a of
        Inl e \<Rightarrow> Inl e
      | Inr b \<Rightarrow>
     (let out = F_relu b in
      case Conv2d_forward (conv2 self) out of
        Inl e \<Rightarrow> Inl e
      | Inr c \<Rightarrow>
     (case BatchNorm2d_forward (bn2 self) c of
        Inl e \<Rightarrow> Inl e
      | Inr d \<Rightarrow>
     (let out = F_relu d;
          out = torch_add x out
      in Inr out)))))"

subsection \<open>S11Block\<close>

record S11Block =
  parallel :: bool
  conv :: Conv2d
  maxpool :: MaxPool2d
  bn :: BatchNorm2d
  res :: "ResBlock option"


definition S11Block_forward :: "S11Block \<Rightarrow> real tensor4 \<Rightarrow> exn + real tensor4" where
  "S11Block_forward self x =
     (case Conv2d_forward (conv self) x of
        Inl e \<Rightarrow> Inl e
      | Inr a \<Rightarrow>
     (case MaxPool2d_forward (maxpool self) a of
        Inl e \<Rightarrow> Inl e
      | Inr b \<Rightarrow>
     (case BatchNorm2d_forward (bn self) b of
        Inl e \<Rightarrow> Inl e
      | Inr c \<Rightarrow>
     (let out = F_relu c
      in if parallel self
         then (case res self of
                 None \<Rightarrow> Inl AttributeError
               | Some r \<Rightarrow> ResBlock_forward r out)
         else Inr out))))"

subsection \<open>S11Net: the constructor\<close>




section \<open>The training and evaluation loops\<close>

subsection \<open>Collaborators\<close>

text \<open>
  The trainer only sequences calls into its collaborators: the model, the loss function,
  the optimizer and the scheduler of the tensor library, the run manager and the progress
  bar. Every call is recorded, in order, in the field \<open>calls\<close> of the state. A scheduler
  step is recorded with the runner that performs it.
\<close>

datatype caller = ByTrain | ByTest | ByModelTrainer

datatype call =
    ModelTrain | ModelEval | NoGradEnter | NoGradExit
  | BeginRun | BeginEpoch | BeginBatch
  | ToDevice | ZeroGrad | Forward | LossFn | L1Penalty | Backward | OptimizerStep
  | TrackTrainLoss | TrackTrainNumCorrect | GetLastLr | EndBatch | SetDescription
  | SchedulerStep caller
  | TrackTestLoss | TrackTestNumCorrect | GetTestLoss | PbarWrite
  | EndEpoch | SaveBest | Save

text \<open>
  The class of the scheduler object, as far as \<open>isinstance\<close> tells it apart; an absent
  scheduler is \<open>None\<close>.
\<close>

datatype scheduler = ReduceLROnPlateau | OtherScheduler

text \<open>
  What the collaborators compute is a parameter of the model. The parameters of the model
  are a list of tensors, each one the list of its entries. \<open>loss_grad\<close> is the gradient of
  \<open>lossfn(model(data), target)\<close> in the parameters, as automatic differentiation finds it.
  The state of the optimizer holds its learning rate; a scheduler step may change it.
\<close>

record ('d, 't, 'y, 'o, 's, 'r, 'b) collaborators =
  model_name :: string
  model_forward :: "real list list \<Rightarrow> bool \<Rightarrow> 'd \<Rightarrow> 'y"
  lossfn :: "'y \<Rightarrow> 't \<Rightarrow> real"
  loss_grad :: "real list list \<Rightarrow> bool \<Rightarrow> 'd \<Rightarrow> 't \<Rightarrow> real list list"
  optimizer_step :: "'o \<Rightarrow> real list list \<Rightarrow> real list list \<Rightarrow> 'o \<times> real list list"
  optimizer_lr :: "'o \<Rightarrow> real"
  scheduler_step :: "'s \<Rightarrow> 'o \<Rightarrow> 's \<times> 'o"
  scheduler_step_metric :: "real \<Rightarrow> 's \<Rightarrow> 'o \<Rightarrow> 's \<times> 'o"
  scheduler_last_lr :: "'s \<Rightarrow> real"
  rm_begin_run :: "'b \<Rightarrow> 'r \<Rightarrow> 'r"
  rm_begin_epoch :: "'r \<Rightarrow> 'r"
  rm_begin_batch :: "'r \<Rightarrow> 'r"
  rm_track_train_loss :: "real \<Rightarrow> 'r \<Rightarrow> 'r"
  rm_track_train_num_correct :: "'y \<Rightarrow> 't \<Rightarrow> 'r \<Rightarrow> 'r"
  rm_end_batch :: "real \<Rightarrow> 'r \<Rightarrow> real \<times> 'r"
  rm_track_test_loss :: "real \<Rightarrow> 'r \<Rightarrow> 'r"
  rm_track_test_num_correct :: "'y \<Rightarrow> 't \<Rightarrow> 'r \<Rightarrow> 'r"
  rm_get_test_loss :: "'r \<Rightarrow> real"
  rm_end_epoch :: "real \<Rightarrow> 'r \<Rightarrow> string \<times> 'r"
  rm_savebest :: "string \<Rightarrow> 'r \<Rightarrow> 'r"
  rm_save :: "string \<Rightarrow> 'r \<Rightarrow> 'r"

text \<open>
  The mutable state: the parameters of the model and their gradient buffers, the mode of
  the model, the state of optimizer, scheduler and run manager, the calls made so far, and
  the values of \<open>loss\<close> on which \<open>backward\<close> was called.
\<close>

record ('o, 's, 'r) world =
  model_parameters :: "real list list"
  model_grad :: "real list list"
  model_training :: bool
  optimizer_state :: 'o
  scheduler_state :: 's
  runmanager_state :: 'r
  calls :: "call list"
  backpropagated :: "real list"

definition record_call :: "call \<Rightarrow> ('o, 's, 'r) world \<Rightarrow> ('o, 's, 'r) world" where
  "record_call c s = s\<lparr>calls := calls s @ [c]\<rparr>"

subsection \<open>The progress bar\<close>

text \<open>
  \<open>tqdm.write(s, file=None, end, nolock)\<close> of the progress-display utility writes \<open>s\<close> to
  \<open>file\<close>, or to the standard output when \<open>file\<close> is None, by calling \<open>file.write\<close>. A
  number has no attribute \<open>write\<close>.
\<close>

datatype pyobj = PyNone | PyFloat real | PyTextIO

definition tqdm_write :: "string \<Rightarrow> pyobj \<Rightarrow> exn + unit" where
  "tqdm_write s file =
     (case file of
        PyNone \<Rightarrow> Inr ()
      | PyTextIO \<Rightarrow> Inr ()
      | PyFloat _ \<Rightarrow> Inl AttributeError)"

subsection \<open>Gradients\<close>

text \<open>
  \<open>optimizer.zero_grad()\<close> leaves every gradient buffer zero; \<open>loss.backward()\<close> adds the
  gradient of \<open>loss\<close> to the buffers. The gradient of the sum of the absolute values of
  the entries is the sign of each entry.
\<close>

definition zeros_like :: "real list list \<Rightarrow> real list list" where
  "zeros_like ps = map (map (\<lambda>_. 0)) ps"

definition add_grads :: "real list list \<Rightarrow> real list list \<Rightarrow> real list list" where
  "add_grads g1 g2 = map2 (map2 (+)) g1 g2"

definition l1_grad :: "real \<Rightarrow> real list list \<Rightarrow> real list list" where
  "l1_grad lam ps = map (map (\<lambda>e. lam * sgn e)) ps"


subsection \<open>The calls, one by one\<close>

text \<open>
  Each call of the runners into a collaborator, as a change of the state. A call that
  returns a value the runner uses has that value as a separate function.
\<close>

definition runmanager_begin_batch ::
  "('d, 't, 'y, 'o, 's, 'r, 'b) collaborators \<Rightarrow> ('o, 's, 'r) world \<Rightarrow> ('o, 's, 'r) world" where
  "runmanager_begin_batch env s =
     record_call BeginBatch (s\<lparr>runmanager_state := rm_begin_batch env (runmanager_state s)\<rparr>)"

text \<open>\<open>data.to(self.model.device), target.to(self.model.device)\<close>\<close>

definition to_device :: "('o, 's, 'r) world \<Rightarrow> ('o, 's, 'r) world" where
  "to_device s = record_call ToDevice (record_call ToDevice s)"

definition optimizer_zero_grad :: "('o, 's, 'r) world \<Rightarrow> ('o, 's, 'r) world" where
  "optimizer_zero_grad s =
     record_call ZeroGrad (s\<lparr>model_grad := zeros_like (model_parameters s)\<rparr>)"

text \<open>\<open>self.model(data)\<close>: the prediction, and the call.\<close>

definition model_output ::
  "('d, 't, 'y, 'o, 's, 'r, 'b) collaborators \<Rightarrow> 'd \<Rightarrow> ('o, 's, 'r) world \<Rightarrow> 'y" where
  "model_output env data s = model_forward env (model_parameters s) (model_training s) data"

definition model_call :: "('o, 's, 'r) world \<Rightarrow> ('o, 's, 'r) world" where
  "model_call s = record_call Forward s"

definition lossfn_call :: "('o, 's, 'r) world \<Rightarrow> ('o, 's, 'r) world" where
  "lossfn_call s = record_call LossFn s"

text \<open>
  \<open>loss.backward()\<close>, for a loss of value \<open>loss\<close> whose gradient in the parameters is
  \<open>dloss\<close>.
\<close>

definition loss_backward ::
  "real \<Rightarrow> real list list \<Rightarrow> ('o, 's, 'r) world \<Rightarrow> ('o, 's, 'r) world" where
  "loss_backward loss dloss s =
     record_call Backward
       (s\<lparr>model_grad := add_grads (model_grad s) dloss,
          backpropagated := backpropagated s @ [loss]\<rparr>)"

definition optimizer_do_step ::
  "('d, 't, 'y, 'o, 's, 'r, 'b) collaborators \<Rightarrow> ('o, 's, 'r) world \<Rightarrow> ('o, 's, 'r) world" where
  "optimizer_do_step env s =
     record_call OptimizerStep
       (s\<lparr>optimizer_state :=
            fst (optimizer_step env (optimizer_state s) (model_parameters s) (model_grad s)),
          model_parameters :=
            snd (optimizer_step env (optimizer_state s) (model_parameters s) (model_grad s))\<rparr>)"

definition runmanager_track_train_loss ::
  "('d, 't, 'y, 'o, 's, 'r, 'b) collaborators \<Rightarrow> real \<Rightarrow> ('o, 's, 'r) world \<Rightarrow>
     ('o, 's, 'r) world" where
  "runmanager_track_train_loss env loss s =
     record_call TrackTrainLoss
       (s\<lparr>runmanager_state := rm_track_train_loss env loss (runmanager_state s)\<rparr>)"

definition runmanager_track_train_num_correct ::
  "('d, 't, 'y, 'o, 's, 'r, 'b) collaborators \<Rightarrow> 'y \<Rightarrow> 't \<Rightarrow> ('o, 's, 'r) world \<Rightarrow>
     ('o, 's, 'r) world" where
  "runmanager_track_train_num_correct env y_pred target s =
     record_call TrackTrainNumCorrect
       (s\<lparr>runmanager_state :=
            rm_track_train_num_correct env y_pred target (runmanager_state s)\<rparr>)"

text \<open>\<open>self.scheduler.get_last_lr()[0]\<close>\<close>

definition scheduler_get_last_lr :: "('o, 's, 'r) world \<Rightarrow> ('o, 's, 'r) world" where
  "scheduler_get_last_lr s = record_call GetLastLr s"

definition runmanager_end_batch ::
  "('d, 't, 'y, 'o, 's, 'r, 'b) collaborators \<Rightarrow> real \<Rightarrow> ('o, 's, 'r) world \<Rightarrow>
     ('o, 's, 'r) world" where
  "runmanager_end_batch env lr s =
     record_call EndBatch
       (s\<lparr>runmanager_state := snd (rm_end_batch env lr (runmanager_state s))\<rparr>)"

definition pbar_set_description :: "('o, 's, 'r) world \<Rightarrow> ('o, 's, 'r) world" where
  "pbar_set_description s = record_call SetDescription s"

text \<open>\<open>self.scheduler.step()\<close>, called by the runner \<open>who\<close>.\<close>

definition scheduler_do_step ::
  "('d, 't, 'y, 'o, 's, 'r, 'b) collaborators \<Rightarrow> caller \<Rightarrow> ('o, 's, 'r) world \<Rightarrow>
     ('o, 's, 'r) world" where
  "scheduler_do_step env who s =
     record_call (SchedulerStep who)
       (s\<lparr>scheduler_state := fst (scheduler_step env (scheduler_state s) (optimizer_state s)),
          optimizer_state := snd (scheduler_step env (scheduler_state s) (optimizer_state s))\<rparr>)"

text \<open>
  \<open>self.scheduler.step()\<close> as the runner \<open>who\<close> writes it, without an argument. The \<open>step\<close>
  of a ReduceLROnPlateau requires the metric: the call raises TypeError and nothing is
  stepped. Any other scheduler is stepped.
\<close>

definition scheduler_step_call ::
  "('d, 't, 'y, 'o, 's, 'r, 'b) collaborators \<Rightarrow> caller \<Rightarrow> scheduler \<Rightarrow> ('o, 's, 'r) world \<Rightarrow>
     (exn + unit) \<times> ('o, 's, 'r) world" where
  "scheduler_step_call env who k s =
     (case k of
        ReduceLROnPlateau \<Rightarrow> (Inl TypeError, s)
      | OtherScheduler \<Rightarrow> (Inr (), scheduler_do_step env who s))"

text \<open>\<open>self.scheduler.step(metric)\<close> of a ReduceLROnPlateau, called by \<open>Test.run\<close>.\<close>

definition scheduler_do_step_metric ::
  "('d, 't, 'y, 'o, 's, 'r, 'b) collaborators \<Rightarrow> real \<Rightarrow> ('o, 's, 'r) world \<Rightarrow>
     ('o, 's, 'r) world" where
  "scheduler_do_step_metric env metric s =
     record_call (SchedulerStep ByTest)
       (s\<lparr>scheduler_state :=
            fst (scheduler_step_metric env metric (scheduler_state s) (optimizer_state s)),
          optimizer_state :=
            snd (scheduler_step_metric env metric (scheduler_state s) (optimizer_state s))\<rparr>)"

definition runmanager_track_test_loss ::
  "('d, 't, 'y, 'o, 's, 'r, 'b) collaborators \<Rightarrow> real \<Rightarrow> ('o, 's, 'r) world \<Rightarrow>
     ('o, 's, 'r) world" where
  "runmanager_track_test_loss env loss s =
     record_call TrackTestLoss
       (s\<lparr>runmanager_state := rm_track_test_loss env loss (runmanager_state s)\<rparr>)"

definition runmanager_track_test_num_correct ::
  "('d, 't, 'y, 'o, 's, 'r, 'b) collaborators \<Rightarrow> 'y \<Rightarrow> 't \<Rightarrow> ('o, 's, 'r) world \<Rightarrow>
     ('o, 's, 'r) world" where
  "runmanager_track_test_num_correct env output target s =
     record_call TrackTestNumCorrect
       (s\<lparr>runmanager_state :=
            rm_track_test_num_correct env output target (runmanager_state s)\<rparr>)"

definition runmanager_get_test_loss :: "('o, 's, 'r) world \<Rightarrow> ('o, 's, 'r) world" where
  "runmanager_get_test_loss s = record_call GetTestLoss s"

definition runmanager_begin_run ::
  "('d, 't, 'y, 'o, 's, 'r, 'b) collaborators \<Rightarrow> 'b \<Rightarrow> ('o, 's, 'r) world \<Rightarrow>
     ('o, 's, 'r) world" where
  "runmanager_begin_run env tbrun s =
     record_call BeginRun
       (s\<lparr>runmanager_state := rm_begin_run env tbrun (runmanager_state s)\<rparr>)"

definition runmanager_begin_epoch ::
  "('d, 't, 'y, 'o, 's, 'r, 'b) collaborators \<Rightarrow> ('o, 's, 'r) world \<Rightarrow> ('o, 's, 'r) world" where
  "runmanager_begin_epoch env s =
     record_call BeginEpoch (s\<lparr>runmanager_state := rm_begin_epoch env (runmanager_state s)\<rparr>)"

definition runmanager_end_epoch ::
  "('d, 't, 'y, 'o, 's, 'r, 'b) collaborators \<Rightarrow> real \<Rightarrow> ('o, 's, 'r) world \<Rightarrow>
     ('o, 's, 'r) world" where
  "runmanager_end_epoch env lr s =
     record_call EndEpoch
       (s\<lparr>runmanager_state := snd (rm_end_epoch env lr (runmanager_state s))\<rparr>)"

definition runmanager_savebest ::
  "('d, 't, 'y, 'o, 's, 'r, 'b) collaborators \<Rightarrow> ('o, 's, 'r) world \<Rightarrow> ('o, 's, 'r) world" where
  "runmanager_savebest env s =
     record_call SaveBest
       (s\<lparr>runmanager_state := rm_savebest env (model_name env) (runmanager_state s)\<rparr>)"

definition runmanager_save ::
  "('d, 't, 'y, 'o, 's, 'r, 'b) collaborators \<Rightarrow> ('o, 's, 'r) world \<Rightarrow> ('o, 's, 'r) world" where
  "runmanager_save env s =
     record_call Save
       (s\<lparr>runmanager_state := rm_save env (model_name env) (runmanager_state s)\<rparr>)"

text \<open>\<open>pbar.write\<close>: the call is recorded, whether or not it raises.\<close>

definition pbar_write :: "('o, 's, 'r) world \<Rightarrow> ('o, 's, 'r) world" where
  "pbar_write s = record_call PbarWrite s"

subsection \<open>Train\<close>

record ('d, 't) Train =
  train_dataloader :: "('d \<times> 't) list"
  train_scheduler :: "scheduler option"
  train_L1lambda :: real

definition Train_init ::
  "('d \<times> 't) list \<Rightarrow> scheduler option \<Rightarrow> real \<Rightarrow> ('d, 't) Train" where
  "Train_init dataloader sched L1lambda =
     \<lparr>train_dataloader = dataloader, train_scheduler = sched, train_L1lambda = L1lambda\<rparr>"

text \<open>The loop \<open>for param in self.model.parameters(): reg_loss += torch.sum(param.abs())\<close>.\<close>

definition reg_loss :: "real list list \<Rightarrow> real" where
  "reg_loss ps = fold (\<lambda>param acc. acc + sum_list (map abs param)) ps 0"

text \<open>
  The body of the loop of \<open>Train.run\<close>, for one batch. Its last statement steps the
  scheduler of the runner without an argument, which raises when that scheduler is a
  ReduceLROnPlateau; the state reached so far stays. (\<open>get_last_lr\<close> is taken to exist on
  every scheduler, as in the library where ReduceLROnPlateau is a learning rate scheduler
  like the others.)
\<close>

definition Train_batch ::
  "('d, 't, 'y, 'o, 's, 'r, 'b) collaborators \<Rightarrow> ('d, 't) Train \<Rightarrow> 'd \<times> 't \<Rightarrow>
     ('o, 's, 'r) world \<Rightarrow> (exn + unit) \<times> ('o, 's, 'r) world" where
  "Train_batch env self batch s0 =
     (case batch of (data, target) \<Rightarrow>
      let s1 = runmanager_begin_batch env s0;
          s2 = to_device s1;
          s3 = optimizer_zero_grad s2;
          y_pred = model_output env data s3;
          s4 = model_call s3;
          loss = lossfn env y_pred target;
          dloss = loss_grad env (model_parameters s3) (model_training s3) data target;
          s5 = lossfn_call s4;
          loss = (if train_L1lambda self > 0
                  then loss + train_L1lambda self * reg_loss (model_parameters s5)
                  else loss);
          dloss = (if train_L1lambda self > 0
                   then add_grads dloss (l1_grad (train_L1lambda self) (model_parameters s5))
                   else dloss);
          s6 = (if train_L1lambda self > 0 then record_call L1Penalty s5 else s5);
          s7 = loss_backward loss dloss s6;
          s8 = optimizer_do_step env s7;
          s9 = runmanager_track_train_loss env loss s8;
          s10 = runmanager_track_train_num_correct env y_pred target s9;
          lr = (case train_scheduler self of
                  Some _ \<Rightarrow> scheduler_last_lr env (scheduler_state s10)
                | None \<Rightarrow> optimizer_lr env (optimizer_state s10));
          s11 = (case train_scheduler self of
                   Some _ \<Rightarrow> scheduler_get_last_lr s10
                 | None \<Rightarrow> s10);
          s12 = runmanager_end_batch env lr s11;
          s13 = pbar_set_description s12
      in (case train_scheduler self of
            Some k \<Rightarrow> scheduler_step_call env ByTrain k s13
          | None \<Rightarrow> (Inr (), s13)))"

text \<open>The loop over the batches; an exception ends the loop.\<close>

fun Train_batches ::
  "('d, 't, 'y, 'o, 's, 'r, 'b) collaborators \<Rightarrow> ('d, 't) Train \<Rightarrow> ('d \<times> 't) list \<Rightarrow>
     ('o, 's, 'r) world \<Rightarrow> (exn + unit) \<times> ('o, 's, 'r) world" where
  "Train_batches env self [] s = (Inr (), s)"
| "Train_batches env self (batch # rest) s =
     (case Train_batch env self batch s of
        (Inl e, s') \<Rightarrow> (Inl e, s')
      | (Inr _, s') \<Rightarrow> Train_batches env self rest s')"

definition Train_run ::
  "('d, 't, 'y, 'o, 's, 'r, 'b) collaborators \<Rightarrow> ('d, 't) Train \<Rightarrow>
     ('o, 's, 'r) world \<Rightarrow> (exn + unit) \<times> ('o, 's, 'r) world" where
  "Train_run env self s =
     Train_batches env self (train_dataloader self)
       (record_call ModelTrain (s\<lparr>model_training := True\<rparr>))"

subsection \<open>Test\<close>

record ('d, 't) Test =
  test_dataloader :: "('d \<times> 't) list"
  test_scheduler :: "scheduler option"

definition Test_init :: "('d \<times> 't) list \<Rightarrow> scheduler option \<Rightarrow> ('d, 't) Test" where
  "Test_init dataloader sched = \<lparr>test_dataloader = dataloader, test_scheduler = sched\<rparr>"

definition Test_batch ::
  "('d, 't, 'y, 'o, 's, 'r, 'b) collaborators \<Rightarrow> 'd \<times> 't \<Rightarrow>
     ('o, 's, 'r) world \<Rightarrow> ('o, 's, 'r) world" where
  "Test_batch env batch s0 =
     (case batch of (data, target) \<Rightarrow>
      let s1 = to_device s0;
          output = model_output env data s1;
          s2 = model_call s1;
          loss = lossfn env output target;
          s3 = lossfn_call s2;
          s4 = runmanager_track_test_loss env loss s3;
          s5 = runmanager_track_test_num_correct env output target s4
      in s5)"

text \<open>
  An exception raised inside the \<open>with torch.no_grad()\<close> block leaves the block (the
  context manager exits) and ends \<open>Test.run\<close>; the state reached so far stays.
\<close>

definition Test_run ::
  "('d, 't, 'y, 'o, 's, 'r, 'b) collaborators \<Rightarrow> ('d, 't) Test \<Rightarrow>
     ('o, 's, 'r) world \<Rightarrow> (exn + unit) \<times> ('o, 's, 'r) world" where
  "Test_run env self s0 =
     (let s1 = record_call ModelEval (s0\<lparr>model_training := False\<rparr>);
          s2 = record_call NoGradEnter s1;
          s3 = fold (Test_batch env) (test_dataloader self) s2
      in if (case test_scheduler self of None \<Rightarrow> False | Some k \<Rightarrow> k = ReduceLROnPlateau)
         then
           (let s4 = runmanager_get_test_loss s3;
                s5 = pbar_write s4
            in case tqdm_write ''In scheduler step with loss of ''
                      (PyFloat (rm_get_test_loss env (runmanager_state s4))) of
                 Inl e \<Rightarrow> (Inl e, record_call NoGradExit s5)
               | Inr _ \<Rightarrow>
                   (let s6 = runmanager_get_test_loss s5;
                        s7 = scheduler_do_step_metric env
                               (rm_get_test_loss env (runmanager_state s6)) s6
                    in (Inr (), record_call NoGradExit s7)))
         else (Inr (), record_call NoGradExit s3))"

subsection \<open>ModelTrainer\<close>

record ('d, 't) ModelTrainer =
  mt_scheduler :: "scheduler option"
  batch_scheduler :: bool
  train_loader :: "('d \<times> 't) list"
  test_loader :: "('d \<times> 't) list"
  train :: "('d, 't) Train"
  test :: "('d, 't) Test"

definition ModelTrainer_init ::
  "('d \<times> 't) list \<Rightarrow> ('d \<times> 't) list \<Rightarrow> scheduler option \<Rightarrow> bool \<Rightarrow> real \<Rightarrow>
     ('d, 't) ModelTrainer" where
  "ModelTrainer_init trainl testl sched batch_sched L1lambda =
     \<lparr>mt_scheduler = sched, batch_scheduler = batch_sched,
      train_loader = trainl, test_loader = testl,
      train = Train_init trainl (if batch_sched then sched else None) L1lambda,
      test = Test_init testl sched\<rparr>"

text \<open>The body of the loop over the epochs; an exception ends the loop.\<close>

definition ModelTrainer_epoch ::
  "('d, 't, 'y, 'o, 's, 'r, 'b) collaborators \<Rightarrow> ('d, 't) ModelTrainer \<Rightarrow>
     ('o, 's, 'r) world \<Rightarrow> (exn + unit) \<times> ('o, 's, 'r) world" where
  "ModelTrainer_epoch env self s0 =
     (let s1 = runmanager_begin_epoch env s0
      in case Train_run env (train self) s1 of
           (Inl e, s2) \<Rightarrow> (Inl e, s2)
         | (Inr _, s2) \<Rightarrow>
        (case Test_run env (test self) s2 of
           (Inl e, s3) \<Rightarrow> (Inl e, s3)
         | (Inr _, s3) \<Rightarrow>
             (let lr = optimizer_lr env (optimizer_state s3);
                  summary = fst (rm_end_epoch env lr (runmanager_state s3));
                  s4 = runmanager_end_epoch env lr s3;
                  s5 = pbar_write s4
              in case tqdm_write summary PyNone of
                   Inl e \<Rightarrow> (Inl e, s5)
                 | Inr _ \<Rightarrow>
                     (let s6 = runmanager_savebest env s5;
                          s7 = (if (case mt_scheduler self of
                                      None \<Rightarrow> False
                                    | Some k \<Rightarrow> \<not> batch_scheduler self \<and> k \<noteq> ReduceLROnPlateau)
                                then scheduler_do_step env ByModelTrainer s6
                                else s6);
                          s8 = pbar_write s7
                      in case tqdm_write ''Learning Rate'' PyNone of
                           Inl e \<Rightarrow> (Inl e, s8)
                         | Inr _ \<Rightarrow> (Inr (), s8)))))"

fun ModelTrainer_epochs ::
  "('d, 't, 'y, 'o, 's, 'r, 'b) collaborators \<Rightarrow> ('d, 't) ModelTrainer \<Rightarrow> int list \<Rightarrow>
     ('o, 's, 'r) world \<Rightarrow> (exn + unit) \<times> ('o, 's, 'r) world" where
  "ModelTrainer_epochs env self [] s = (Inr (), s)"
| "ModelTrainer_epochs env self (epoch # rest) s =
     (case ModelTrainer_epoch env self s of
        (Inl e, s') \<Rightarrow> (Inl e, s')
      | (Inr _, s') \<Rightarrow> ModelTrainer_epochs env self rest s')"

definition ModelTrainer_run ::
  "('d, 't, 'y, 'o, 's, 'r, 'b) collaborators \<Rightarrow> ('d, 't) ModelTrainer \<Rightarrow> 'b \<Rightarrow> int \<Rightarrow>
     ('o, 's, 'r) world \<Rightarrow> (exn + unit) \<times> ('o, 's, 'r) world" where
  "ModelTrainer_run env self tbrun epochs s0 =
     (let s1 = runmanager_begin_run env tbrun s0
      in case ModelTrainer_epochs env self [1..epochs] s1 of
           (Inl e, s2) \<Rightarrow> (Inl e, s2)
         | (Inr _, s2) \<Rightarrow> (Inr (), runmanager_save env s2))"

text \<open>The calls that are made on the run manager.\<close>

definition runmanager_call :: "call \<Rightarrow> bool" where
  "runmanager_call c =
     (c = BeginRun \<or> c = BeginEpoch \<or> c = BeginBatch \<or> c = TrackTrainLoss \<or>
      c = TrackTrainNumCorrect \<or> c = EndBatch \<or> c = TrackTestLoss \<or>
      c = TrackTestNumCorrect \<or> c = GetTestLoss \<or> c = EndEpoch \<or> c = SaveBest \<or> c = Save)"

section \<open>An example configuration\<close>

text \<open>
  A model with a single scalar parameter \<open>w\<close> that predicts \<open>w * data\<close>, the loss
  \<open>prediction - target\<close>, gradient descent with the learning rate as the state of the
  optimizer, a scheduler that halves the learning rate, and a run manager that sums the
  training and the test losses.
\<close>

definition example_env :: "(real, real, real, real, real, real \<times> real, string) collaborators" where
  "example_env =
     \<lparr>model_name = ''S11Net'',
      model_forward = (\<lambda>ps training d. (case ps of [[w]] \<Rightarrow> w * d | _ \<Rightarrow> 0)),
      lossfn = (\<lambda>y t. y - t),
      loss_grad = (\<lambda>ps training d t. [[d]]),
      optimizer_step = (\<lambda>lr ps g. (lr, map2 (map2 (\<lambda>p dp. p - lr * dp)) ps g)),
      optimizer_lr = (\<lambda>lr. lr),
      scheduler_step = (\<lambda>last lr. (lr / 2, lr / 2)),
      scheduler_step_metric = (\<lambda>metric last lr. (lr, lr)),
      scheduler_last_lr = (\<lambda>last. last),
      rm_begin_run = (\<lambda>tbrun r. (0, 0)),
      rm_begin_epoch = (\<lambda>r. (0, 0)),
      rm_begin_batch = (\<lambda>r. r),
      rm_track_train_loss = (\<lambda>l r. (fst r + l, snd r)),
      rm_track_train_num_correct = (\<lambda>y t r. r),
      rm_end_batch = (\<lambda>lr r. (0, r)),
      rm_track_test_loss = (\<lambda>l r. (fst r, snd r + l)),
      rm_track_test_num_correct = (\<lambda>y t r. r),
      rm_get_test_loss = snd,
      rm_end_epoch = (\<lambda>lr r. (''epoch'', r)),
      rm_savebest = (\<lambda>name r. r),
      rm_save = (\<lambda>name r. r)\<rparr>"

definition example_world :: "(real, real, real \<times> real) world" where
  "example_world =
     \<lparr>model_parameters = [[1]], model_grad = [[0]], model_training = True,
      optimizer_state = 1, scheduler_state = 1, runmanager_state = (0, 0),
      calls = [], backpropagated = []\<rparr>"

definition example_labels :: "int tensor4" where
  "example_labels = [[[[0, 1], [1, 0]]]]"

definition example_image :: "real tensor4" where
  "example_image = [[[[1, -2], [3, 4]]]]"

text \<open>A 3 x 3 kernel for one input and one output channel, and an initialiser that draws it.\<close>

definition example_weight :: "real tensor4" where
  "example_weight = [[[[0, 0, 0], [0, 1, 0], [0, 0, 0]]]]"



definition example_pixel :: "real tensor4" where
  "example_pixel = [[[[5]]]]"

section \<open>Notation for sequences of calls\<close>

text \<open>
  Abbreviations for the calls of one training batch, of one test batch, of the two runners
  and of one epoch that ends without an exception; they only shorten the statements below.
  A ReduceLROnPlateau on the training runner is not stepped, and the runner ends with its
  first batch.
\<close>

abbreviation Train_batch_trace :: "('d, 't) Train \<Rightarrow> call list" where
  "Train_batch_trace self \<equiv>
     [BeginBatch, ToDevice, ToDevice, ZeroGrad, Forward, LossFn]
     @ (if train_L1lambda self > 0 then [L1Penalty] else [])
     @ [Backward, OptimizerStep, TrackTrainLoss, TrackTrainNumCorrect]
     @ (if train_scheduler self \<noteq> None then [GetLastLr] else [])
     @ [EndBatch, SetDescription]
     @ (if train_scheduler self = Some OtherScheduler then [SchedulerStep ByTrain] else [])"

abbreviation Test_batch_trace :: "call list" where
  "Test_batch_trace \<equiv> [ToDevice, ToDevice, Forward, LossFn, TrackTestLoss, TrackTestNumCorrect]"

abbreviation Train_run_trace :: "('d, 't) Train \<Rightarrow> call list" where
  "Train_run_trace self \<equiv>
     ModelTrain # concat (map (\<lambda>_. Train_batch_trace self)
       (if train_scheduler self = Some ReduceLROnPlateau
        then take 1 (train_dataloader self) else train_dataloader self))"

abbreviation Test_run_trace :: "('d, 't) Test \<Rightarrow> call list" where
  "Test_run_trace self \<equiv>
     [ModelEval, NoGradEnter]
     @ concat (map (\<lambda>_. Test_batch_trace) (test_dataloader self))
     @ (if test_scheduler self = Some ReduceLROnPlateau then [GetTestLoss, PbarWrite] else [])
     @ [NoGradExit]"

abbreviation epoch_scheduler_step :: "('d, 't) ModelTrainer \<Rightarrow> bool" where
  "epoch_scheduler_step self \<equiv>
     (case mt_scheduler self of
        None \<Rightarrow> False
      | Some k \<Rightarrow> \<not> batch_scheduler self \<and> k \<noteq> ReduceLROnPlateau)"

abbreviation ModelTrainer_epoch_trace :: "('d, 't) ModelTrainer \<Rightarrow> call list" where
  "ModelTrainer_epoch_trace self \<equiv>
     [BeginEpoch] @ Train_run_trace (train self) @ Test_run_trace (test self)
     @ [EndEpoch, PbarWrite, SaveBest]
     @ (if epoch_scheduler_step self then [SchedulerStep ByModelTrainer] else [])
     @ [PbarWrite]"

section \<open>Properties of make\_one\_hot\<close>

lemma has_shape3_nth:
  "has_shape3 img c h w \<Longrightarrow> k < c \<Longrightarrow> length (img ! k) = h"
  "has_shape3 img c h w \<Longrightarrow> k < c \<Longrightarrow> a < h \<Longrightarrow> length (img ! k ! a) = w"
  by (auto simp: has_shape3_def list_all_length)

lemma has_shape3_length: "has_shape3 img c h w \<Longrightarrow> length img = c"
  by (simp add: has_shape3_def)

lemma write3_shape: "has_shape3 img c h w \<Longrightarrow> has_shape3 (write3 img k a b v) c h w"
proof -
  assume sh: "has_shape3 img c h w"
  have len: "length (write3 img k a b v) = c"
    using sh by (simp add: write3_def has_shape3_def)
  have "length (write3 img k a b v ! n) = h \<and>
        (\<forall>m<h. length (write3 img k a b v ! n ! m) = w)" if "n < c" for n
  proof (cases "n = k")
    case True
    then show ?thesis
      using sh that
      by (cases "a < h") (auto simp: write3_def has_shape3_def list_all_length nth_list_update)
  next
    case False
    then show ?thesis
      using sh that by (auto simp: write3_def has_shape3_def list_all_length)
  qed
  then show ?thesis
    using len by (auto simp: has_shape3_def list_all_length)
qed

lemma write3_nth:
  assumes "has_shape3 img c h w" "k < c" "a < h" "b < w" "k' < c" "a' < h" "b' < w"
  shows "write3 img k a b v ! k' ! a' ! b' = (if k' = k \<and> a' = a \<and> b' = b then v else img ! k' ! a' ! b')"
  using assms has_shape3_nth[OF assms(1)] has_shape3_length[OF assms(1)]
  by (auto simp: write3_def nth_list_update)

lemma fold_write3:
  assumes "has_shape3 img c h w"
    and "\<forall>(c0, a0, b0) \<in> set ps. f c0 a0 b0 < c \<and> a0 < h \<and> b0 < w"
  shows "has_shape3 (fold (\<lambda>(c0, a0, b0) acc. write3 acc (f c0 a0 b0) a0 b0 v) ps img) c h w \<and>
         (\<forall>k<c. \<forall>a<h. \<forall>b<w.
            fold (\<lambda>(c0, a0, b0) acc. write3 acc (f c0 a0 b0) a0 b0 v) ps img ! k ! a ! b =
              (if \<exists>(c0, a0, b0) \<in> set ps. f c0 a0 b0 = k \<and> a0 = a \<and> b0 = b then v
               else img ! k ! a ! b))"
  using assms
proof (induction ps arbitrary: img)
  case Nil
  then show ?case by simp
next
  case (Cons p ps)
  obtain c0 a0 b0 where p: "p = (c0, a0, b0)" by (cases p) auto
  from Cons.prems p have r: "f c0 a0 b0 < c" "a0 < h" "b0 < w" by auto
  let ?img = "write3 img (f c0 a0 b0) a0 b0 v"
  have sh: "has_shape3 ?img c h w" using Cons.prems(1) by (rule write3_shape)
  have rest: "\<forall>(c0, a0, b0) \<in> set ps. f c0 a0 b0 < c \<and> a0 < h \<and> b0 < w"
    using Cons.prems(2) by auto
  note IH = Cons.IH[OF sh rest]
  show ?case
  proof (intro conjI allI impI)
    show "has_shape3 (fold (\<lambda>(c0, a0, b0) acc. write3 acc (f c0 a0 b0) a0 b0 v) (p # ps) img) c h w"
      using IH by (simp add: p)
  next
    fix k a b assume kab: "k < c" "a < h" "b < w"
    have "fold (\<lambda>(c0, a0, b0) acc. write3 acc (f c0 a0 b0) a0 b0 v) (p # ps) img ! k ! a ! b =
          (if \<exists>(c0, a0, b0) \<in> set ps. f c0 a0 b0 = k \<and> a0 = a \<and> b0 = b then v
               else ?img ! k ! a ! b)"
      using IH kab by (simp add: p)
    also have "?img ! k ! a ! b = (if k = f c0 a0 b0 \<and> a = a0 \<and> b = b0 then v else img ! k ! a ! b)"
      using write3_nth[OF Cons.prems(1) r kab] by simp
    finally show "fold (\<lambda>(c0, a0, b0) acc. write3 acc (f c0 a0 b0) a0 b0 v) (p # ps) img ! k ! a ! b =
              (if \<exists>(c0, a0, b0) \<in> set (p # ps). f c0 a0 b0 = k \<and> a0 = a \<and> b0 = b then v
               else img ! k ! a ! b)"
      by (auto simp: p)
  qed
qed

lemma positions3_iff:
  "(c0, a0, b0) \<in> set (positions3 idx) \<longleftrightarrow>
     c0 < length idx \<and> a0 < length (idx ! c0) \<and> b0 < length (idx ! c0 ! a0)"
proof
  assume "(c0, a0, b0) \<in> set (positions3 idx)"
  then show "c0 < length idx \<and> a0 < length (idx ! c0) \<and> b0 < length (idx ! c0 ! a0)"
    by (auto simp: positions3_def)
next
  assume r: "c0 < length idx \<and> a0 < length (idx ! c0) \<and> b0 < length (idx ! c0 ! a0)"
  have "\<exists>x\<in>{0..<length idx}. \<exists>xa\<in>{0..<length (idx ! x)}.
          (c0, a0, b0) \<in> (\<lambda>xb. (x, xa, xb)) ` {0..<length (idx ! x ! xa)}"
    by (rule bexI[of _ c0], rule bexI[of _ a0]) (use r in simp_all)
  then show "(c0, a0, b0) \<in> set (positions3 idx)"
    by (simp add: positions3_def)
qed

lemma set_positions3:
  assumes "has_shape3 idx c h w"
  shows "set (positions3 idx) = {(c0, a0, b0). c0 < c \<and> a0 < h \<and> b0 < w}"
proof -
  have "(c0, a0, b0) \<in> set (positions3 idx) \<longleftrightarrow> c0 < c \<and> a0 < h \<and> b0 < w" for c0 a0 b0
    using has_shape3_nth[OF assms] has_shape3_length[OF assms]
    unfolding positions3_iff by metis
  then show ?thesis by auto
qed

lemma scatter_image_one_hot:
  assumes idx: "has_shape3 idx 1 h w"
    and img: "has_shape3 img c h w"
    and ok: "index_ok img idx"
  shows "has_shape3 (scatter_image img idx v) c h w"
    and "k < c \<Longrightarrow> a < h \<Longrightarrow> b < w \<Longrightarrow>
         scatter_image img idx v ! k ! a ! b = (if int k = idx ! 0 ! a ! b then v else img ! k ! a ! b)"
proof -
  have rng: "\<forall>(c0, a0, b0) \<in> set (positions3 idx). nat (idx ! c0 ! a0 ! b0) < c \<and> a0 < h \<and> b0 < w"
    using ok has_shape3_nth[OF idx] has_shape3_length[OF idx] has_shape3_length[OF img]
    by (auto simp: set_positions3[OF idx] index_ok_def list_all_length nat_less_iff)
  note F = fold_write3[OF img rng, of v, folded scatter_image_def]
  show "has_shape3 (scatter_image img idx v) c h w" using F by simp
  assume kab: "k < c" "a < h" "b < w"
  have nn: "0 \<le> idx ! 0 ! a ! b"
    using ok kab has_shape3_nth[OF idx] has_shape3_length[OF idx]
    by (auto simp: index_ok_def list_all_length)
  have "(\<exists>(c0, a0, b0) \<in> set (positions3 idx). nat (idx ! c0 ! a0 ! b0) = k \<and> a0 = a \<and> b0 = b)
        \<longleftrightarrow> int k = idx ! 0 ! a ! b"
    using kab nn by (auto simp: set_positions3[OF idx])
  then show "scatter_image img idx v ! k ! a ! b = (if int k = idx ! 0 ! a ! b then v else img ! k ! a ! b)"
    using F kab by simp
qed


lemma zeros4_like_labels:
  assumes "has_shape labels n (Suc 0) h w" and "0 < n"
  shows "zeros4 (size0 labels) c (size2 labels) (size3 labels) = replicate n (replicate c (replicate h (replicate (size3 labels) 0)))
         \<and> has_shape3 (replicate c (replicate h (replicate (size3 labels) (0::real)))) c h w
         \<and> (0 < h \<longrightarrow> size3 labels = w)"
proof (cases labels)
  case Nil
  then show ?thesis
    using assms by (simp add: has_shape_def)
next
  case (Cons img rest)
  then have img: "has_shape3 img (Suc 0) h w" and n: "length labels = n"
    using assms by (auto simp: has_shape_def)
  then obtain ch where ch: "img = [ch]" "length ch = h" "list_all (\<lambda>row. length row = w) ch"
    by (cases img) (auto simp: has_shape3_def)
  show ?thesis
  proof (cases ch)
    case Nil
    then show ?thesis
      using Cons ch n
      by (auto simp: zeros4_def size0_def size2_def size3_def has_shape3_def list_all_iff)
  next
    case (Cons row rows)
    then show ?thesis
      using \<open>labels = img # rest\<close> ch n
      by (auto simp: zeros4_def size0_def size2_def size3_def has_shape3_def list_all_iff)
  qed
qed

lemma make_one_hot_example:
  "make_one_hot example_labels 2 ''cuda'' = Inr [[[[1, 0], [0, 1]], [[0, 1], [1, 0]]]]"
  by (simp add: make_one_hot_def example_labels_def scatter_dim1_def index_ok_def scatter_image_def
      positions3_def write3_def zeros4_def size0_def size2_def size3_def upt_rec numeral_2_eq_2)

section \<open>The effect of each call on the state\<close>

lemma record_call_fields [simp]:
  "model_parameters (record_call c s) = model_parameters s"
  "model_grad (record_call c s) = model_grad s"
  "model_training (record_call c s) = model_training s"
  "optimizer_state (record_call c s) = optimizer_state s"
  "scheduler_state (record_call c s) = scheduler_state s"
  "runmanager_state (record_call c s) = runmanager_state s"
  "calls (record_call c s) = calls s @ [c]"
  "backpropagated (record_call c s) = backpropagated s"
  by (simp_all add: record_call_def)

lemma runmanager_begin_batch_fields [simp]:
  "model_parameters (runmanager_begin_batch env s) = model_parameters s"
  "model_grad (runmanager_begin_batch env s) = model_grad s"
  "model_training (runmanager_begin_batch env s) = model_training s"
  "optimizer_state (runmanager_begin_batch env s) = optimizer_state s"
  "scheduler_state (runmanager_begin_batch env s) = scheduler_state s"
  "runmanager_state (runmanager_begin_batch env s) = rm_begin_batch env (runmanager_state s)"
  "calls (runmanager_begin_batch env s) = calls s @ [BeginBatch]"
  "backpropagated (runmanager_begin_batch env s) = backpropagated s"
  by (simp_all add: runmanager_begin_batch_def record_call_def)

lemma to_device_fields [simp]:
  "model_parameters (to_device s) = model_parameters s"
  "model_grad (to_device s) = model_grad s"
  "model_training (to_device s) = model_training s"
  "optimizer_state (to_device s) = optimizer_state s"
  "scheduler_state (to_device s) = scheduler_state s"
  "runmanager_state (to_device s) = runmanager_state s"
  "calls (to_device s) = calls s @ [ToDevice, ToDevice]"
  "backpropagated (to_device s) = backpropagated s"
  by (simp_all add: to_device_def record_call_def)

lemma optimizer_zero_grad_fields [simp]:
  "model_parameters (optimizer_zero_grad s) = model_parameters s"
  "model_grad (optimizer_zero_grad s) = zeros_like (model_parameters s)"
  "model_training (optimizer_zero_grad s) = model_training s"
  "optimizer_state (optimizer_zero_grad s) = optimizer_state s"
  "scheduler_state (optimizer_zero_grad s) = scheduler_state s"
  "runmanager_state (optimizer_zero_grad s) = runmanager_state s"
  "calls (optimizer_zero_grad s) = calls s @ [ZeroGrad]"
  "backpropagated (optimizer_zero_grad s) = backpropagated s"
  by (simp_all add: optimizer_zero_grad_def record_call_def)

lemma model_call_fields [simp]:
  "model_parameters (model_call s) = model_parameters s"
  "model_grad (model_call s) = model_grad s"
  "model_training (model_call s) = model_training s"
  "optimizer_state (model_call s) = optimizer_state s"
  "scheduler_state (model_call s) = scheduler_state s"
  "runmanager_state (model_call s) = runmanager_state s"
  "calls (model_call s) = calls s @ [Forward]"
  "backpropagated (model_call s) = backpropagated s"
  by (simp_all add: model_call_def record_call_def)

lemma lossfn_call_fields [simp]:
  "model_parameters (lossfn_call s) = model_parameters s"
  "model_grad (lossfn_call s) = model_grad s"
  "model_training (lossfn_call s) = model_training s"
  "optimizer_state (lossfn_call s) = optimizer_state s"
  "scheduler_state (lossfn_call s) = scheduler_state s"
  "runmanager_state (lossfn_call s) = runmanager_state s"
  "calls (lossfn_call s) = calls s @ [LossFn]"
  "backpropagated (lossfn_call s) = backpropagated s"
  by (simp_all add: lossfn_call_def record_call_def)

lemma loss_backward_fields [simp]:
  "model_parameters (loss_backward loss dloss s) = model_parameters s"
  "model_grad (loss_backward loss dloss s) = add_grads (model_grad s) dloss"
  "model_training (loss_backward loss dloss s) = model_training s"
  "optimizer_state (loss_backward loss dloss s) = optimizer_state s"
  "scheduler_state (loss_backward loss dloss s) = scheduler_state s"
  "runmanager_state (loss_backward loss dloss s) = runmanager_state s"
  "calls (loss_backward loss dloss s) = calls s @ [Backward]"
  "backpropagated (loss_backward loss dloss s) = backpropagated s @ [loss]"
  by (simp_all add: loss_backward_def record_call_def)

lemma optimizer_do_step_fields [simp]:
  "model_parameters (optimizer_do_step env s) = snd (optimizer_step env (optimizer_state s) (model_parameters s) (model_grad s))"
  "model_grad (optimizer_do_step env s) = model_grad s"
  "model_training (optimizer_do_step env s) = model_training s"
  "optimizer_state (optimizer_do_step env s) = fst (optimizer_step env (optimizer_state s) (model_parameters s) (model_grad s))"
  "scheduler_state (optimizer_do_step env s) = scheduler_state s"
  "runmanager_state (optimizer_do_step env s) = runmanager_state s"
  "calls (optimizer_do_step env s) = calls s @ [OptimizerStep]"
  "backpropagated (optimizer_do_step env s) = backpropagated s"
  by (simp_all add: optimizer_do_step_def record_call_def)

lemma runmanager_track_train_loss_fields [simp]:
  "model_parameters (runmanager_track_train_loss env loss s) = model_parameters s"
  "model_grad (runmanager_track_train_loss env loss s) = model_grad s"
  "model_training (runmanager_track_train_loss env loss s) = model_training s"
  "optimizer_state (runmanager_track_train_loss env loss s) = optimizer_state s"
  "scheduler_state (runmanager_track_train_loss env loss s) = scheduler_state s"
  "runmanager_state (runmanager_track_train_loss env loss s) = rm_track_train_loss env loss (runmanager_state s)"
  "calls (runmanager_track_train_loss env loss s) = calls s @ [TrackTrainLoss]"
  "backpropagated (runmanager_track_train_loss env loss s) = backpropagated s"
  by (simp_all add: runmanager_track_train_loss_def record_call_def)

lemma runmanager_track_train_num_correct_fields [simp]:
  "model_parameters (runmanager_track_train_num_correct env y_pred target s) = model_parameters s"
  "model_grad (runmanager_track_train_num_correct env y_pred target s) = model_grad s"
  "model_training (runmanager_track_train_num_correct env y_pred target s) = model_training s"
  "optimizer_state (runmanager_track_train_num_correct env y_pred target s) = optimizer_state s"
  "scheduler_state (runmanager_track_train_num_correct env y_pred target s) = scheduler_state s"
  "runmanager_state (runmanager_track_train_num_correct env y_pred target s) = rm_track_train_num_correct env y_pred target (runmanager_state s)"
  "calls (runmanager_track_train_num_correct env y_pred target s) = calls s @ [TrackTrainNumCorrect]"
  "backpropagated (runmanager_track_train_num_correct env y_pred target s) = backpropagated s"
  by (simp_all add: runmanager_track_train_num_correct_def record_call_def)

lemma scheduler_get_last_lr_fields [simp]:
  "model_parameters (scheduler_get_last_lr s) = model_parameters s"
  "model_grad (scheduler_get_last_lr s) = model_grad s"
  "model_training (scheduler_get_last_lr s) = model_training s"
  "optimizer_state (scheduler_get_last_lr s) = optimizer_state s"
  "scheduler_state (scheduler_get_last_lr s) = scheduler_state s"
  "runmanager_state (scheduler_get_last_lr s) = runmanager_state s"
  "calls (scheduler_get_last_lr s) = calls s @ [GetLastLr]"
  "backpropagated (scheduler_get_last_lr s) = backpropagated s"
  by (simp_all add: scheduler_get_last_lr_def record_call_def)

lemma runmanager_end_batch_fields [simp]:
  "model_parameters (runmanager_end_batch env lr s) = model_parameters s"
  "model_grad (runmanager_end_batch env lr s) = model_grad s"
  "model_training (runmanager_end_batch env lr s) = model_training s"
  "optimizer_state (runmanager_end_batch env lr s) = optimizer_state s"
  "scheduler_state (runmanager_end_batch env lr s) = scheduler_state s"
  "runmanager_state (runmanager_end_batch env lr s) = snd (rm_end_batch env lr (runmanager_state s))"
  "calls (runmanager_end_batch env lr s) = calls s @ [EndBatch]"
  "backpropagated (runmanager_end_batch env lr s) = backpropagated s"
  by (simp_all add: runmanager_end_batch_def record_call_def)

lemma pbar_set_description_fields [simp]:
  "model_parameters (pbar_set_description s) = model_parameters s"
  "model_grad (pbar_set_description s) = model_grad s"
  "model_training (pbar_set_description s) = model_training s"
  "optimizer_state (pbar_set_description s) = optimizer_state s"
  "scheduler_state (pbar_set_description s) = scheduler_state s"
  "runmanager_state (pbar_set_description s) = runmanager_state s"
  "calls (pbar_set_description s) = calls s @ [SetDescription]"
  "backpropagated (pbar_set_description s) = backpropagated s"
  by (simp_all add: pbar_set_description_def record_call_def)

lemma scheduler_do_step_fields [simp]:
  "model_parameters (scheduler_do_step env who s) = model_parameters s"
  "model_grad (scheduler_do_step env who s) = model_grad s"
  "model_training (scheduler_do_step env who s) = model_training s"
  "optimizer_state (scheduler_do_step env who s) = snd (scheduler_step env (scheduler_state s) (optimizer_state s))"
  "scheduler_state (scheduler_do_step env who s) = fst (scheduler_step env (scheduler_state s) (optimizer_state s))"
  "runmanager_state (scheduler_do_step env who s) = runmanager_state s"
  "calls (scheduler_do_step env who s) = calls s @ [SchedulerStep who]"
  "backpropagated (scheduler_do_step env who s) = backpropagated s"
  by (simp_all add: scheduler_do_step_def record_call_def)

lemma scheduler_do_step_metric_fields [simp]:
  "model_parameters (scheduler_do_step_metric env metric s) = model_parameters s"
  "model_grad (scheduler_do_step_metric env metric s) = model_grad s"
  "model_training (scheduler_do_step_metric env metric s) = model_training s"
  "optimizer_state (scheduler_do_step_metric env metric s) = snd (scheduler_step_metric env metric (scheduler_state s) (optimizer_state s))"
  "scheduler_state (scheduler_do_step_metric env metric s) = fst (scheduler_step_metric env metric (scheduler_state s) (optimizer_state s))"
  "runmanager_state (scheduler_do_step_metric env metric s) = runmanager_state s"
  "calls (scheduler_do_step_metric env metric s) = calls s @ [SchedulerStep ByTest]"
  "backpropagated (scheduler_do_step_metric env metric s) = backpropagated s"
  by (simp_all add: scheduler_do_step_metric_def record_call_def)

lemma runmanager_track_test_loss_fields [simp]:
  "model_parameters (runmanager_track_test_loss env loss s) = model_parameters s"
  "model_grad (runmanager_track_test_loss env loss s) = model_grad s"
  "model_training (runmanager_track_test_loss env loss s) = model_training s"
  "optimizer_state (runmanager_track_test_loss env loss s) = optimizer_state s"
  "scheduler_state (runmanager_track_test_loss env loss s) = scheduler_state s"
  "runmanager_state (runmanager_track_test_loss env loss s) = rm_track_test_loss env loss (runmanager_state s)"
  "calls (runmanager_track_test_loss env loss s) = calls s @ [TrackTestLoss]"
  "backpropagated (runmanager_track_test_loss env loss s) = backpropagated s"
  by (simp_all add: runmanager_track_test_loss_def record_call_def)

lemma runmanager_track_test_num_correct_fields [simp]:
  "model_parameters (runmanager_track_test_num_correct env output target s) = model_parameters s"
  "model_grad (runmanager_track_test_num_correct env output target s) = model_grad s"
  "model_training (runmanager_track_test_num_correct env output target s) = model_training s"
  "optimizer_state (runmanager_track_test_num_correct env output target s) = optimizer_state s"
  "scheduler_state (runmanager_track_test_num_correct env output target s) = scheduler_state s"
  "runmanager_state (runmanager_track_test_num_correct env output target s) = rm_track_test_num_correct env output target (runmanager_state s)"
  "calls (runmanager_track_test_num_correct env output target s) = calls s @ [TrackTestNumCorrect]"
  "backpropagated (runmanager_track_test_num_correct env output target s) = backpropagated s"
  by (simp_all add: runmanager_track_test_num_correct_def record_call_def)

lemma runmanager_get_test_loss_fields [simp]:
  "model_parameters (runmanager_get_test_loss s) = model_parameters s"
  "model_grad (runmanager_get_test_loss s) = model_grad s"
  "model_training (runmanager_get_test_loss s) = model_training s"
  "optimizer_state (runmanager_get_test_loss s) = optimizer_state s"
  "scheduler_state (runmanager_get_test_loss s) = scheduler_state s"
  "runmanager_state (runmanager_get_test_loss s) = runmanager_state s"
  "calls (runmanager_get_test_loss s) = calls s @ [GetTestLoss]"
  "backpropagated (runmanager_get_test_loss s) = backpropagated s"
  by (simp_all add: runmanager_get_test_loss_def record_call_def)

lemma runmanager_begin_run_fields [simp]:
  "model_parameters (runmanager_begin_run env tbrun s) = model_parameters s"
  "model_grad (runmanager_begin_run env tbrun s) = model_grad s"
  "model_training (runmanager_begin_run env tbrun s) = model_training s"
  "optimizer_state (runmanager_begin_run env tbrun s) = optimizer_state s"
  "scheduler_state (runmanager_begin_run env tbrun s) = scheduler_state s"
  "runmanager_state (runmanager_begin_run env tbrun s) = rm_begin_run env tbrun (runmanager_state s)"
  "calls (runmanager_begin_run env tbrun s) = calls s @ [BeginRun]"
  "backpropagated (runmanager_begin_run env tbrun s) = backpropagated s"
  by (simp_all add: runmanager_begin_run_def record_call_def)

lemma runmanager_begin_epoch_fields [simp]:
  "model_parameters (runmanager_begin_epoch env s) = model_parameters s"
  "model_grad (runmanager_begin_epoch env s) = model_grad s"
  "model_training (runmanager_begin_epoch env s) = model_training s"
  "optimizer_state (runmanager_begin_epoch env s) = optimizer_state s"
  "scheduler_state (runmanager_begin_epoch env s) = scheduler_state s"
  "runmanager_state (runmanager_begin_epoch env s) = rm_begin_epoch env (runmanager_state s)"
  "calls (runmanager_begin_epoch env s) = calls s @ [BeginEpoch]"
  "backpropagated (runmanager_begin_epoch env s) = backpropagated s"
  by (simp_all add: runmanager_begin_epoch_def record_call_def)

lemma runmanager_end_epoch_fields [simp]:
  "model_parameters (runmanager_end_epoch env lr s) = model_parameters s"
  "model_grad (runmanager_end_epoch env lr s) = model_grad s"
  "model_training (runmanager_end_epoch env lr s) = model_training s"
  "optimizer_state (runmanager_end_epoch env lr s) = optimizer_state s"
  "scheduler_state (runmanager_end_epoch env lr s) = scheduler_state s"
  "runmanager_state (runmanager_end_epoch env lr s) = snd (rm_end_epoch env lr (runmanager_state s))"
  "calls (runmanager_end_epoch env lr s) = calls s @ [EndEpoch]"
  "backpropagated (runmanager_end_epoch env lr s) = backpropagated s"
  by (simp_all add: runmanager_end_epoch_def record_call_def)

lemma runmanager_savebest_fields [simp]:
  "model_parameters (runmanager_savebest env s) = model_parameters s"
  "model_grad (runmanager_savebest env s) = model_grad s"
  "model_training (runmanager_savebest env s) = model_training s"
  "optimizer_state (runmanager_savebest env s) = optimizer_state s"
  "scheduler_state (runmanager_savebest env s) = scheduler_state s"
  "runmanager_state (runmanager_savebest env s) = rm_savebest env (model_name env) (runmanager_state s)"
  "calls (runmanager_savebest env s) = calls s @ [SaveBest]"
  "backpropagated (runmanager_savebest env s) = backpropagated s"
  by (simp_all add: runmanager_savebest_def record_call_def)

lemma runmanager_save_fields [simp]:
  "model_parameters (runmanager_save env s) = model_parameters s"
  "model_grad (runmanager_save env s) = model_grad s"
  "model_training (runmanager_save env s) = model_training s"
  "optimizer_state (runmanager_save env s) = optimizer_state s"
  "scheduler_state (runmanager_save env s) = scheduler_state s"
  "runmanager_state (runmanager_save env s) = rm_save env (model_name env) (runmanager_state s)"
  "calls (runmanager_save env s) = calls s @ [Save]"
  "backpropagated (runmanager_save env s) = backpropagated s"
  by (simp_all add: runmanager_save_def record_call_def)

lemma pbar_write_fields [simp]:
  "model_parameters (pbar_write s) = model_parameters s"
  "model_grad (pbar_write s) = model_grad s"
  "model_training (pbar_write s) = model_training s"
  "optimizer_state (pbar_write s) = optimizer_state s"
  "scheduler_state (pbar_write s) = scheduler_state s"
  "runmanager_state (pbar_write s) = runmanager_state s"
  "calls (pbar_write s) = calls s @ [PbarWrite]"
  "backpropagated (pbar_write s) = backpropagated s"
  by (simp_all add: pbar_write_def record_call_def)

section \<open>Properties of the training loop\<close>

lemma fold_add_sum_list:
  "fold (\<lambda>x acc. acc + f x) xs (a::real) = a + sum_list (map f xs)"
  by (induction xs arbitrary: a) (simp_all add: add.assoc)

lemma reg_loss_sum: "reg_loss ps = (\<Sum>p\<leftarrow>ps. \<Sum>e\<leftarrow>p. \<bar>e\<bar>)"
  by (simp add: reg_loss_def fold_add_sum_list)

lemma scheduler_step_call_fields:
  "fst (scheduler_step_call env who k s) = (if k = ReduceLROnPlateau then Inl TypeError else Inr ())"
  "model_parameters (snd (scheduler_step_call env who k s)) = model_parameters s"
  "model_grad (snd (scheduler_step_call env who k s)) = model_grad s"
  "model_training (snd (scheduler_step_call env who k s)) = model_training s"
  "backpropagated (snd (scheduler_step_call env who k s)) = backpropagated s"
  "calls (snd (scheduler_step_call env who k s)) =
     calls s @ (if k = OtherScheduler then [SchedulerStep who] else [])"
  by (cases k; simp add: scheduler_step_call_def)+

lemma Train_batch_result:
  "fst (Train_batch env self batch s) =
     (if train_scheduler self = Some ReduceLROnPlateau then Inl TypeError else Inr ())"
  by (cases batch)
     (simp add: Train_batch_def Let_def scheduler_step_call_fields split: option.splits)

lemma Train_batch_training:
  "model_training (snd (Train_batch env self batch s)) = model_training s"
  by (cases batch)
     (simp add: Train_batch_def Let_def scheduler_step_call_fields split: option.splits)

lemma Train_batch_backpropagated:
  "backpropagated (snd (Train_batch env self (data, target) s)) =
     backpropagated s @
       [if train_L1lambda self > 0
        then lossfn env (model_forward env (model_parameters s) (model_training s) data) target
               + train_L1lambda self * (\<Sum>p\<leftarrow>model_parameters s. \<Sum>e\<leftarrow>p. \<bar>e\<bar>)
        else lossfn env (model_forward env (model_parameters s) (model_training s) data) target]"
  by (simp add: Train_batch_def Let_def reg_loss_sum model_output_def scheduler_step_call_fields
      split: option.splits)

lemma Train_batch_calls:
  "calls (snd (Train_batch env self batch s)) = calls s @ Train_batch_trace self"
  by (cases batch; cases "train_scheduler self")
     (simp_all add: Train_batch_def Let_def scheduler_step_call_fields)

lemma Train_batch_gradient:
  "model_grad (snd (Train_batch env self (data, target) s)) =
       add_grads (zeros_like (model_parameters s))
         (if train_L1lambda self > 0
          then add_grads (loss_grad env (model_parameters s) (model_training s) data target)
                 (l1_grad (train_L1lambda self) (model_parameters s))
          else loss_grad env (model_parameters s) (model_training s) data target)"
  "model_parameters (snd (Train_batch env self (data, target) s)) =
       snd (optimizer_step env (optimizer_state s) (model_parameters s)
              (add_grads (zeros_like (model_parameters s))
                 (if train_L1lambda self > 0
                  then add_grads (loss_grad env (model_parameters s) (model_training s) data target)
                         (l1_grad (train_L1lambda self) (model_parameters s))
                  else loss_grad env (model_parameters s) (model_training s) data target)))"
  by (simp_all add: Train_batch_def Let_def scheduler_step_call_fields split: option.splits)

lemma Train_batch_loader:
  "Train_batch env (self\<lparr>train_dataloader := xs\<rparr>) batch s = Train_batch env self batch s"
  by (cases batch) (simp add: Train_batch_def Let_def split: option.splits)

lemma Train_batches_loader:
  "Train_batches env (self\<lparr>train_dataloader := xs\<rparr>) bs s = Train_batches env self bs s"
  by (induction bs arbitrary: s) (simp_all add: Train_batch_loader split: prod.splits sum.splits)

lemma Train_batches_snoc:
  assumes "fst (Train_batches env self bs s) = Inr ()"
  shows "Train_batches env self (bs @ [b]) s =
           Train_batch env self b (snd (Train_batches env self bs s))"
  using assms
proof (induction bs arbitrary: s)
  case Nil
  show ?case by (cases "Train_batch env self b s") (simp split: sum.splits)
next
  case (Cons a bs)
  obtain r s' where t: "Train_batch env self a s = (r, s')" by (cases "Train_batch env self a s")
  show ?case
  proof (cases r)
    case (Inl e)
    then show ?thesis using Cons.prems t by simp
  next
    case (Inr u)
    then show ?thesis using Cons.prems t Cons.IH[of s'] by simp
  qed
qed

lemma Train_batches_training:
  "model_training (snd (Train_batches env self bs s)) = model_training s"
proof (induction bs arbitrary: s)
  case Nil
  show ?case by simp
next
  case (Cons a bs)
  obtain r s' where t: "Train_batch env self a s = (r, s')" by (cases "Train_batch env self a s")
  have "model_training s' = model_training s"
    using Train_batch_training[of env self a s] t by simp
  then show ?case using Cons.IH[of s'] t by (cases r) simp_all
qed

lemma Train_batches_ok:
  assumes "train_scheduler self \<noteq> Some ReduceLROnPlateau"
  shows "fst (Train_batches env self bs s) = Inr () \<and>
         calls (snd (Train_batches env self bs s)) =
           calls s @ concat (map (\<lambda>_. Train_batch_trace self) bs)"
proof (induction bs arbitrary: s)
  case Nil
  show ?case by simp
next
  case (Cons a bs)
  obtain r s' where t: "Train_batch env self a s = (r, s')" by (cases "Train_batch env self a s")
  have r: "r = Inr ()" using Train_batch_result[of env self a s] t assms by simp
  have c: "calls s' = calls s @ Train_batch_trace self"
    using Train_batch_calls[of env self a s] t by simp
  show ?case using Cons.IH[of s'] by (simp add: t r c)
qed

lemma Train_batches_plateau:
  assumes "train_scheduler self = Some ReduceLROnPlateau"
  shows "fst (Train_batches env self (b # bs) s) = Inl TypeError \<and>
         calls (snd (Train_batches env self (b # bs) s)) = calls s @ Train_batch_trace self"
proof -
  obtain r s' where t: "Train_batch env self b s = (r, s')" by (cases "Train_batch env self b s")
  have r: "r = Inl TypeError" using Train_batch_result[of env self b s] t assms by simp
  have c: "calls s' = calls s @ Train_batch_trace self"
    using Train_batch_calls[of env self b s] t by simp
  show ?thesis by (simp add: t r c)
qed

lemma Train_run_result:
  "fst (Train_run env self s) =
     (if train_scheduler self = Some ReduceLROnPlateau \<and> train_dataloader self \<noteq> []
      then Inl TypeError else Inr ())"
proof (cases "train_scheduler self = Some ReduceLROnPlateau")
  case True
  show ?thesis
  proof (cases "train_dataloader self")
    case Nil
    then show ?thesis by (simp add: Train_run_def)
  next
    case (Cons b bs)
    have "fst (Train_batches env self (b # bs)
                 (record_call ModelTrain (s\<lparr>model_training := True\<rparr>))) = Inl TypeError"
      using Train_batches_plateau[OF True] by blast
    then show ?thesis using True Cons by (simp add: Train_run_def)
  qed
next
  case False
  have "fst (Train_batches env self (train_dataloader self)
               (record_call ModelTrain (s\<lparr>model_training := True\<rparr>))) = Inr ()"
    using Train_batches_ok[OF False] by blast
  then show ?thesis using False by (simp add: Train_run_def)
qed

lemma Train_run_calls:
  "calls (snd (Train_run env self s)) = calls s @ Train_run_trace self"
proof (cases "train_scheduler self = Some ReduceLROnPlateau")
  case True
  show ?thesis
  proof (cases "train_dataloader self")
    case Nil
    then show ?thesis by (simp add: Train_run_def)
  next
    case (Cons b bs)
    have "calls (snd (Train_batches env self (b # bs)
                        (record_call ModelTrain (s\<lparr>model_training := True\<rparr>)))) =
          calls (record_call ModelTrain (s\<lparr>model_training := True\<rparr>)) @ Train_batch_trace self"
      using Train_batches_plateau[OF True] by blast
    then show ?thesis using True Cons by (simp add: Train_run_def)
  qed
next
  case False
  have "calls (snd (Train_batches env self (train_dataloader self)
                        (record_call ModelTrain (s\<lparr>model_training := True\<rparr>)))) =
        calls (record_call ModelTrain (s\<lparr>model_training := True\<rparr>))
          @ concat (map (\<lambda>_. Train_batch_trace self) (train_dataloader self))"
    using Train_batches_ok[OF False] by blast
  then show ?thesis using False by (simp add: Train_run_def)
qed

lemma Train_run_training: "model_training (snd (Train_run env self s))"
  by (simp add: Train_run_def Train_batches_training)

lemma Train_run_snoc:
  assumes "fst (Train_run env (self\<lparr>train_dataloader := bs\<rparr>) s) = Inr ()"
  shows "Train_run env (self\<lparr>train_dataloader := bs @ [b]\<rparr>) s =
           Train_batch env self b (snd (Train_run env (self\<lparr>train_dataloader := bs\<rparr>) s))"
  using assms Train_batches_snoc[of env self bs "record_call ModelTrain (s\<lparr>model_training := True\<rparr>)" b]
  by (simp add: Train_run_def Train_batches_loader)

lemma optimizer_zero_grad_reset:
  "optimizer_zero_grad (to_device (runmanager_begin_batch env (s\<lparr>model_grad := g0\<rparr>))) =
   optimizer_zero_grad (to_device (runmanager_begin_batch env s))"
  by (simp add: optimizer_zero_grad_def to_device_def runmanager_begin_batch_def record_call_def)

lemma Train_batch_grad_reset:
  "Train_batch env self batch (s\<lparr>model_grad := g0\<rparr>) = Train_batch env self batch s"
  by (cases batch) (simp add: Train_batch_def Let_def optimizer_zero_grad_reset split: option.splits)

lemma example_Train_batch:
  "model_parameters s = [[w]] \<Longrightarrow> optimizer_state s = 1 \<Longrightarrow>
   Train_batch example_env (Train_init bs None 0) (d, t) s =
     (Inr (), snd (Train_batch example_env (Train_init bs None 0) (d, t) s)) \<and>
   model_grad (snd (Train_batch example_env (Train_init bs None 0) (d, t) s)) = [[d]] \<and>
   model_parameters (snd (Train_batch example_env (Train_init bs None 0) (d, t) s)) = [[w - d]] \<and>
   optimizer_state (snd (Train_batch example_env (Train_init bs None 0) (d, t) s)) = 1"
  by (simp add: Train_batch_def Let_def Train_init_def example_env_def zeros_like_def add_grads_def)


section \<open>Properties of the evaluation loop\<close>

lemma Test_batch_fields:
  "model_parameters (Test_batch env batch s) = model_parameters s"
  "model_grad (Test_batch env batch s) = model_grad s"
  "model_training (Test_batch env batch s) = model_training s"
  "optimizer_state (Test_batch env batch s) = optimizer_state s"
  "scheduler_state (Test_batch env batch s) = scheduler_state s"
  "backpropagated (Test_batch env batch s) = backpropagated s"
  "calls (Test_batch env batch s) =
     calls s @ [ToDevice, ToDevice, Forward, LossFn, TrackTestLoss, TrackTestNumCorrect]"
  by (cases batch; simp add: Test_batch_def Let_def)+

lemma fold_Test_batch_fields:
  "model_parameters (fold (Test_batch env) bs s) = model_parameters s"
  "model_grad (fold (Test_batch env) bs s) = model_grad s"
  "model_training (fold (Test_batch env) bs s) = model_training s"
  "optimizer_state (fold (Test_batch env) bs s) = optimizer_state s"
  "scheduler_state (fold (Test_batch env) bs s) = scheduler_state s"
  "backpropagated (fold (Test_batch env) bs s) = backpropagated s"
  "calls (fold (Test_batch env) bs s) =
     calls s @ concat (map (\<lambda>_. [ToDevice, ToDevice, Forward, LossFn, TrackTestLoss, TrackTestNumCorrect]) bs)"
  by (induction bs arbitrary: s; simp add: Test_batch_fields)+

lemma tqdm_write_float: "tqdm_write msg (PyFloat v) = Inl AttributeError"
  by (simp add: tqdm_write_def)

lemma tqdm_write_none: "tqdm_write msg PyNone = Inr ()"
  by (simp add: tqdm_write_def)

lemma Test_run_result:
  "fst (Test_run env self s) =
     (if test_scheduler self = Some ReduceLROnPlateau then Inl AttributeError else Inr ())"
  by (simp add: Test_run_def Let_def tqdm_write_float split: option.splits)

lemma Test_run_fields:
  "model_parameters (snd (Test_run env self s)) = model_parameters s"
  "model_grad (snd (Test_run env self s)) = model_grad s"
  "model_training (snd (Test_run env self s)) = False"
  "optimizer_state (snd (Test_run env self s)) = optimizer_state s"
  "scheduler_state (snd (Test_run env self s)) = scheduler_state s"
  "backpropagated (snd (Test_run env self s)) = backpropagated s"
  "calls (snd (Test_run env self s)) =
     calls s @ [ModelEval, NoGradEnter]
       @ concat (map (\<lambda>_. [ToDevice, ToDevice, Forward, LossFn, TrackTestLoss, TrackTestNumCorrect])
                   (test_dataloader self))
       @ (if test_scheduler self = Some ReduceLROnPlateau then [GetTestLoss, PbarWrite] else [])
       @ [NoGradExit]"
  by (simp_all add: Test_run_def Let_def tqdm_write_float fold_Test_batch_fields split: option.splits)

section \<open>Shapes and exceptions through the layers\<close>

lemma has_shape3_iff:
  "has_shape3 img c h w \<longleftrightarrow>
     length img = c \<and> (\<forall>k<c. length (img ! k) = h \<and> (\<forall>a<h. length (img ! k ! a) = w))"
  by (auto simp: has_shape3_def list_all_length)

lemma has_shape_iff:
  "has_shape x n c h w \<longleftrightarrow> length x = n \<and> (\<forall>i<n. has_shape3 (x ! i) c h w)"
  by (auto simp: has_shape_def list_all_length)

lemma conv_out_size_same:
  "kernel_size cv = 3 \<Longrightarrow> padding cv = 1 \<Longrightarrow> stride cv = 1 \<Longrightarrow> conv_out_size cv sz = sz"
  by (simp add: conv_out_size_def)

lemma row_length_shape:
  "length ch = h \<Longrightarrow> list_all (\<lambda>row. length row = w) ch \<Longrightarrow> 0 < h \<Longrightarrow> row_length ch = w"
  by (cases ch) (simp_all add: row_length_def)

lemma height_width:
  assumes "has_shape3 img c h w" "0 < c"
  shows "height img = h" and "0 < h \<Longrightarrow> width img = w"
proof -
  from assms obtain ch rest where img: "img = ch # rest" by (cases img) (auto simp: has_shape3_def)
  with assms have ch: "length ch = h" "list_all (\<lambda>row. length row = w) ch"
    by (auto simp: has_shape3_def)
  show "height img = h" using img ch by (simp add: height_def)
  assume "0 < h"
  then show "width img = w" using img row_length_shape[OF ch] by (simp add: width_def)
qed

lemma sizes_shape:
  assumes "has_shape x n c h w" "0 < n" "0 < c"
  shows "size0 x = n" and "size2 x = h" and "0 < h \<Longrightarrow> size3 x = w"
proof -
  from assms obtain img rest where x: "x = img # rest" by (cases x) (auto simp: has_shape_def)
  with assms have img: "has_shape3 img c h w" by (simp add: has_shape_def)
  note hw = height_width[OF img assms(3)]
  show "size0 x = n" using assms by (simp add: size0_def has_shape_def)
  show "size2 x = h" using hw(1) x by (simp add: size2_def height_def)
  assume "0 < h"
  then show "size3 x = w" using hw(2) x
    by (simp add: size3_def width_def row_length_def split: list.splits)
qed

lemma conv2d_image_shape:
  assumes hyp: "kernel_size cv = 3" "padding cv = 1" "stride cv = 1"
    and sh: "has_shape3 img c h w" and c: "0 < c"
  shows "has_shape3 (conv2d_image cv img) (out_channels cv) h w"
proof -
  note hw = height_width[OF sh c]
  show ?thesis
  proof (cases "h = 0")
    case True
    then show ?thesis
      using hw(1) by (simp add: conv2d_image_def has_shape3_iff conv_out_size_same[OF hyp])
  next
    case False
    then show ?thesis
      using hw by (simp add: conv2d_image_def has_shape3_iff conv_out_size_same[OF hyp])
  qed
qed

lemma conv2d_accepts_shape:
  assumes "kernel_size cv = 3" "padding cv = 1"
    and sh: "has_shape3 img c h w" and "in_channels cv = c" and "0 < h" "0 < w"
  shows "conv2d_accepts cv img"
proof -
  have "3 \<le> length ch + 2 \<and> 3 \<le> row_length ch + 2" if "ch \<in> set img" for ch
  proof -
    from that sh have ch: "length ch = h" "list_all (\<lambda>row. length row = w) ch"
      by (auto simp: has_shape3_def list_all_iff)
    show ?thesis using ch(1) row_length_shape[OF ch \<open>0 < h\<close>] \<open>0 < h\<close> \<open>0 < w\<close> by simp
  qed
  then show ?thesis
    using assms by (simp add: conv2d_accepts_def has_shape3_def list_all_iff)
qed

lemma Conv2d_forward_ok:
  assumes hyp: "kernel_size cv = 3" "padding cv = 1" "stride cv = 1"
    and x: "has_shape x n c h w" and ic: "in_channels cv = c" and pos: "0 < c" "0 < h" "0 < w"
  shows "Conv2d_forward cv x = Inr (map (conv2d_image cv) x)"
    and "has_shape (map (conv2d_image cv) x) n (out_channels cv) h w"
proof -
  have "list_all (conv2d_accepts cv) x"
    using x conv2d_accepts_shape[OF hyp(1,2) _ ic pos(2,3)]
    by (auto simp: has_shape_def list_all_iff)
  then show "Conv2d_forward cv x = Inr (map (conv2d_image cv) x)"
    by (simp add: Conv2d_forward_def)
  show "has_shape (map (conv2d_image cv) x) n (out_channels cv) h w"
    using x conv2d_image_shape[OF hyp _ pos(1)] by (simp add: has_shape_iff)
qed

lemma Conv2d_forward_small:
  assumes "kernel_size cv = 3" "padding cv = 1" and "has_shape x n c 0 w" and "0 < n" "0 < c"
  shows "Conv2d_forward cv x = Inl RuntimeError"
proof -
  from assms obtain img rest where x: "x = img # rest" and img: "has_shape3 img c 0 w"
    by (cases x) (auto simp: has_shape_def)
  from img \<open>0 < c\<close> obtain ch chs where "img = ch # chs" "length ch = 0"
    by (cases img) (auto simp: has_shape3_def)
  then have "\<not> conv2d_accepts cv img" using assms(1,2) by (simp add: conv2d_accepts_def)
  then show ?thesis using x by (simp add: Conv2d_forward_def)
qed

lemma batch_norm_output_shape:
  assumes "has_shape x n c h w"
  shows "has_shape (batch_norm_output b x) n c h w"
  using assms
  by (simp add: has_shape_iff has_shape3_iff batch_norm_output_def nth_enumerate_eq Let_def)

lemma BatchNorm2d_forward_ok:
  assumes x: "has_shape x n c h w" and nf: "num_features b = c" and pos: "0 < n" "0 < c"
    and mode: "bn_training b \<longrightarrow> n * h * w \<noteq> 1"
  shows "BatchNorm2d_forward b x = Inr (batch_norm_output b x)"
proof -
  have sz: "size0 x * size2 x * size3 x = 1 \<longrightarrow> n * h * w = 1"
    using sizes_shape[OF x pos] by (cases "h = 0") auto
  have ch: "list_all (\<lambda>img. length img = num_features b) x"
    using x nf by (auto simp: has_shape_def has_shape3_def list_all_iff)
  show ?thesis using sz ch mode by (auto simp add: BatchNorm2d_forward_def)
qed

lemma BatchNorm2d_forward_single:
  assumes x: "has_shape x 1 c 1 1" and pos: "0 < c" and mode: "bn_training b"
  shows "BatchNorm2d_forward b x = Inl ValueError"
  using sizes_shape[OF x _ pos] mode by (simp add: BatchNorm2d_forward_def)


lemma F_relu_shape:
  assumes "has_shape x n c h w"
  shows "has_shape (F_relu x) n c h w"
  using assms by (simp add: has_shape_iff has_shape3_iff F_relu_def)

lemma F_relu_nth:
  assumes "has_shape x n c h w" "i < n" "k < c" "a < h" "b < w"
  shows "F_relu x ! i ! k ! a ! b = max 0 (x ! i ! k ! a ! b)"
  using assms by (simp add: has_shape_iff has_shape3_iff F_relu_def)

lemma torch_add_shape:
  assumes "has_shape x n c h w" "has_shape y n c h w"
  shows "has_shape (torch_add x y) n c h w"
  using assms by (simp add: has_shape_iff has_shape3_iff torch_add_def)

lemma torch_add_nth:
  assumes "has_shape x n c h w" "has_shape y n c h w" "i < n" "k < c" "a < h" "b < w"
  shows "torch_add x y ! i ! k ! a ! b = x ! i ! k ! a ! b + y ! i ! k ! a ! b"
  using assms by (simp add: has_shape_iff has_shape3_iff torch_add_def)

lemma nn_Conv2d_fields:
  "in_channels (nn_Conv2d i oc k p s w) = i" "out_channels (nn_Conv2d i oc k p s w) = oc"
  "kernel_size (nn_Conv2d i oc k p s w) = k" "padding (nn_Conv2d i oc k p s w) = p"
  "stride (nn_Conv2d i oc k p s w) = s" "weight (nn_Conv2d i oc k p s w) = w"
  by (simp_all add: nn_Conv2d_def)

lemma ResBlock_init_fields:
  "conv1 (ResBlock_init planes w1 w2) = nn_Conv2d planes planes 3 1 1 w1"
  "conv2 (ResBlock_init planes w1 w2) = nn_Conv2d planes planes 3 1 1 w2"
  "bn1 (ResBlock_init planes w1 w2) = nn_BatchNorm2d planes"
  "bn2 (ResBlock_init planes w1 w2) = nn_BatchNorm2d planes"
  "num_features (nn_BatchNorm2d planes) = planes"
  "bn_training (nn_BatchNorm2d planes)"
  by (simp_all add: ResBlock_init_def nn_BatchNorm2d_def)

lemma ResBlock_forward_ok:
  assumes c1: "conv1 self = nn_Conv2d planes planes 3 1 1 w1"
    and c2: "conv2 self = nn_Conv2d planes planes 3 1 1 w2"
    and b1: "num_features (bn1 self) = planes"
    and b2: "num_features (bn2 self) = planes"
    and x: "has_shape x n planes h w"
    and pos: "0 < n" "0 < planes" "0 < h" "0 < w"
    and mode: "bn_training (bn1 self) \<or> bn_training (bn2 self) \<longrightarrow> n * h * w \<noteq> 1"
  shows "\<exists>a b c d.
           Conv2d_forward (conv1 self) x = Inr a \<and>
           BatchNorm2d_forward (bn1 self) a = Inr b \<and>
           Conv2d_forward (conv2 self) (F_relu b) = Inr c \<and>
           BatchNorm2d_forward (bn2 self) c = Inr d \<and>
           ResBlock_forward self x = Inr (torch_add x (F_relu d)) \<and>
           has_shape d n planes h w"
proof -
  have k1: "kernel_size (conv1 self) = 3" "padding (conv1 self) = 1" "stride (conv1 self) = 1"
    and i1: "in_channels (conv1 self) = planes" and o1: "out_channels (conv1 self) = planes"
    by (simp_all add: c1 nn_Conv2d_fields)
  have k2: "kernel_size (conv2 self) = 3" "padding (conv2 self) = 1" "stride (conv2 self) = 1"
    and i2: "in_channels (conv2 self) = planes" and o2: "out_channels (conv2 self) = planes"
    by (simp_all add: c2 nn_Conv2d_fields)
  define a where "a = map (conv2d_image (conv1 self)) x"
  define b where "b = batch_norm_output (bn1 self) a"
  define c where "c = map (conv2d_image (conv2 self)) (F_relu b)"
  define d where "d = batch_norm_output (bn2 self) c"
  have ra: "Conv2d_forward (conv1 self) x = Inr a" and sa: "has_shape a n planes h w"
    using Conv2d_forward_ok[OF k1 x i1 pos(2,3,4)] by (simp_all add: a_def o1)
  have rb: "BatchNorm2d_forward (bn1 self) a = Inr b"
    unfolding b_def using mode by (intro BatchNorm2d_forward_ok[OF sa b1 pos(1,2)]) simp
  have sb: "has_shape (F_relu b) n planes h w"
    unfolding b_def by (intro F_relu_shape batch_norm_output_shape sa)
  have rc: "Conv2d_forward (conv2 self) (F_relu b) = Inr c" and sc: "has_shape c n planes h w"
    using Conv2d_forward_ok[OF k2 sb i2 pos(2,3,4)] by (simp_all add: c_def o2)
  have rd: "BatchNorm2d_forward (bn2 self) c = Inr d"
    unfolding d_def using mode by (intro BatchNorm2d_forward_ok[OF sc b2 pos(1,2)]) simp
  have sd: "has_shape d n planes h w"
    unfolding d_def by (intro batch_norm_output_shape sc)
  have "ResBlock_forward self x = Inr (torch_add x (F_relu d))"
    by (simp add: ResBlock_forward_def ra rb rc rd)
  then show ?thesis using ra rb rc rd sd by blast
qed


lemma S11Block_forward_raises:
  "Conv2d_forward (conv self) x = Inl e \<Longrightarrow> S11Block_forward self x = Inl e"
  "Conv2d_forward (conv self) x = Inr a \<Longrightarrow> MaxPool2d_forward (maxpool self) a = Inl e \<Longrightarrow>
     S11Block_forward self x = Inl e"
  "Conv2d_forward (conv self) x = Inr a \<Longrightarrow> MaxPool2d_forward (maxpool self) a = Inr b \<Longrightarrow>
     BatchNorm2d_forward (bn self) b = Inl e \<Longrightarrow> S11Block_forward self x = Inl e"
  by (simp_all add: S11Block_forward_def)

section \<open>Properties of the loop over the epochs\<close>

lemma ModelTrainer_epoch_train_raises:
  assumes "train_scheduler (train self) = Some ReduceLROnPlateau"
    and "train_dataloader (train self) \<noteq> []"
  shows "fst (ModelTrainer_epoch env self s) = Inl TypeError"
    and "calls (snd (ModelTrainer_epoch env self s)) =
           calls s @ [BeginEpoch] @ Train_run_trace (train self)"
proof -
  let ?s1 = "runmanager_begin_epoch env s"
  obtain r s2 where t0: "Train_run env (train self) ?s1 = (r, s2)"
    by (cases "Train_run env (train self) ?s1")
  have "r = Inl TypeError"
    using Train_run_result[of env "train self" ?s1] t0 assms by simp
  then have t: "Train_run env (train self) ?s1 = (Inl TypeError, s2)"
    using t0 by simp
  have c: "calls s2 = calls ?s1 @ Train_run_trace (train self)"
    using Train_run_calls[of env "train self" ?s1] t0 by simp
  show "fst (ModelTrainer_epoch env self s) = Inl TypeError"
    by (simp add: ModelTrainer_epoch_def Let_def t)
  show "calls (snd (ModelTrainer_epoch env self s)) =
           calls s @ [BeginEpoch] @ Train_run_trace (train self)"
    using assms by (simp add: ModelTrainer_epoch_def Let_def t c)
qed

lemma ModelTrainer_epoch_ok:
  assumes "train_scheduler (train self) \<noteq> Some ReduceLROnPlateau \<or> train_dataloader (train self) = []"
    and "test_scheduler (test self) \<noteq> Some ReduceLROnPlateau"
  shows "fst (ModelTrainer_epoch env self s) = Inr ()"
    and "calls (snd (ModelTrainer_epoch env self s)) = calls s @ ModelTrainer_epoch_trace self"
proof -
  let ?s1 = "runmanager_begin_epoch env s"
  obtain r0 s2 where t0: "Train_run env (train self) ?s1 = (r0, s2)"
    by (cases "Train_run env (train self) ?s1")
  have "r0 = Inr ()"
    using Train_run_result[of env "train self" ?s1] t0 assms(1) by auto
  then have tt: "Train_run env (train self) ?s1 = (Inr (), s2)"
    using t0 by simp
  have c2: "calls s2 = calls ?s1 @ Train_run_trace (train self)"
    using Train_run_calls[of env "train self" ?s1] t0 by simp
  obtain r s3 where t: "Test_run env (test self) s2 = (r, s3)" by (cases "Test_run env (test self) s2")
  have r: "r = Inr ()" using Test_run_result[of env "test self" s2] assms(2) t by simp
  have c3: "calls s3 = calls s2 @ Test_run_trace (test self)"
    using Test_run_fields(7)[of env "test self" s2] t by simp
  show "fst (ModelTrainer_epoch env self s) = Inr ()"
    by (simp add: ModelTrainer_epoch_def Let_def tt t r tqdm_write_none)
  show "calls (snd (ModelTrainer_epoch env self s)) = calls s @ ModelTrainer_epoch_trace self"
    using assms(2)
    by (simp add: ModelTrainer_epoch_def Let_def tt t r tqdm_write_none c3 c2)
qed

lemma ModelTrainer_epoch_plateau:
  assumes "train_scheduler (train self) \<noteq> Some ReduceLROnPlateau \<or> train_dataloader (train self) = []"
    and "test_scheduler (test self) = Some ReduceLROnPlateau"
  shows "fst (ModelTrainer_epoch env self s) = Inl AttributeError"
    and "calls (snd (ModelTrainer_epoch env self s)) =
           calls s @ [BeginEpoch] @ Train_run_trace (train self) @ Test_run_trace (test self)"
proof -
  let ?s1 = "runmanager_begin_epoch env s"
  obtain r0 s2 where t0: "Train_run env (train self) ?s1 = (r0, s2)"
    by (cases "Train_run env (train self) ?s1")
  have "r0 = Inr ()"
    using Train_run_result[of env "train self" ?s1] t0 assms(1) by auto
  then have tt: "Train_run env (train self) ?s1 = (Inr (), s2)"
    using t0 by simp
  have c2: "calls s2 = calls ?s1 @ Train_run_trace (train self)"
    using Train_run_calls[of env "train self" ?s1] t0 by simp
  obtain r s3 where t: "Test_run env (test self) s2 = (r, s3)" by (cases "Test_run env (test self) s2")
  have r: "r = Inl AttributeError" using Test_run_result[of env "test self" s2] assms(2) t by simp
  have c3: "calls s3 = calls s2 @ Test_run_trace (test self)"
    using Test_run_fields(7)[of env "test self" s2] t by simp
  show "fst (ModelTrainer_epoch env self s) = Inl AttributeError"
    by (simp add: ModelTrainer_epoch_def Let_def tt t r)
  show "calls (snd (ModelTrainer_epoch env self s)) =
           calls s @ [BeginEpoch] @ Train_run_trace (train self) @ Test_run_trace (test self)"
    using assms(2) by (simp add: ModelTrainer_epoch_def Let_def tt t r c3 c2)
qed

lemma ModelTrainer_epochs_ok:
  assumes "train_scheduler (train self) \<noteq> Some ReduceLROnPlateau \<or> train_dataloader (train self) = []"
    and "test_scheduler (test self) \<noteq> Some ReduceLROnPlateau"
  shows "fst (ModelTrainer_epochs env self es s) = Inr () \<and>
         calls (snd (ModelTrainer_epochs env self es s)) =
           calls s @ concat (map (\<lambda>_. ModelTrainer_epoch_trace self) es)"
proof (induction es arbitrary: s)
  case Nil
  then show ?case by simp
next
  case (Cons e es)
  obtain r s' where ep: "ModelTrainer_epoch env self s = (r, s')"
    by (cases "ModelTrainer_epoch env self s")
  have r: "r = Inr ()" and c: "calls s' = calls s @ ModelTrainer_epoch_trace self"
    using ModelTrainer_epoch_ok[OF assms, of env s] ep by simp_all
  show ?case
    using Cons.IH[of s'] by (simp add: ep r c)
qed

lemma ModelTrainer_epochs_stop:
  assumes "fst (ModelTrainer_epoch env self s) = Inl e"
  shows "fst (ModelTrainer_epochs env self (ep # es) s) = Inl e \<and>
         snd (ModelTrainer_epochs env self (ep # es) s) = snd (ModelTrainer_epoch env self s)"
  using assms by (cases "ModelTrainer_epoch env self s") simp

lemma ModelTrainer_run_stop:
  assumes "fst (ModelTrainer_epoch env self (runmanager_begin_run env tbrun s)) = Inl e"
    and "1 \<le> epochs"
  shows "fst (ModelTrainer_run env self tbrun epochs s) = Inl e"
    and "snd (ModelTrainer_run env self tbrun epochs s) =
           snd (ModelTrainer_epoch env self (runmanager_begin_run env tbrun s))"
proof -
  let ?s1 = "runmanager_begin_run env tbrun s"
  have es: "[1..epochs] = 1 # [2..epochs]" using assms(2) by (simp add: upto_rec1)
  obtain r s2 where ep: "ModelTrainer_epochs env self [1..epochs] ?s1 = (r, s2)"
    by (cases "ModelTrainer_epochs env self [1..epochs] ?s1")
  have r: "r = Inl e" and c: "s2 = snd (ModelTrainer_epoch env self ?s1)"
    using ModelTrainer_epochs_stop[OF assms(1), of 1 "[2..epochs]"] ep es by simp_all
  show "fst (ModelTrainer_run env self tbrun epochs s) = Inl e"
    by (simp add: ModelTrainer_run_def Let_def ep r)
  show "snd (ModelTrainer_run env self tbrun epochs s) =
           snd (ModelTrainer_epoch env self (runmanager_begin_run env tbrun s))"
    by (simp add: ModelTrainer_run_def Let_def ep r c)
qed

lemma ModelTrainer_run_ok:
  assumes "train_scheduler (train self) \<noteq> Some ReduceLROnPlateau \<or> train_dataloader (train self) = []"
    and "test_scheduler (test self) \<noteq> Some ReduceLROnPlateau"
  shows "fst (ModelTrainer_run env self tbrun epochs s) = Inr ()"
    and "calls (snd (ModelTrainer_run env self tbrun epochs s)) =
           calls s @ [BeginRun] @ concat (map (\<lambda>_. ModelTrainer_epoch_trace self) [1..epochs]) @ [Save]"
proof -
  let ?s1 = "runmanager_begin_run env tbrun s"
  obtain r s2 where ep: "ModelTrainer_epochs env self [1..epochs] ?s1 = (r, s2)"
    by (cases "ModelTrainer_epochs env self [1..epochs] ?s1")
  have r: "r = Inr ()"
    and c: "calls s2 = calls ?s1 @ concat (map (\<lambda>_. ModelTrainer_epoch_trace self) [1..epochs])"
    using ModelTrainer_epochs_ok[OF assms, of env "[1..epochs]" ?s1] ep by simp_all
  show "fst (ModelTrainer_run env self tbrun epochs s) = Inr ()"
    by (simp add: ModelTrainer_run_def Let_def ep r)
  show "calls (snd (ModelTrainer_run env self tbrun epochs s)) =
           calls s @ [BeginRun] @ concat (map (\<lambda>_. ModelTrainer_epoch_trace self) [1..epochs]) @ [Save]"
    by (simp add: ModelTrainer_run_def Let_def ep r c)
qed

lemma ModelTrainer_run_plateau:
  assumes "train_scheduler (train self) \<noteq> Some ReduceLROnPlateau \<or> train_dataloader (train self) = []"
    and "test_scheduler (test self) = Some ReduceLROnPlateau" and "1 \<le> epochs"
  shows "fst (ModelTrainer_run env self tbrun epochs s) = Inl AttributeError"
    and "calls (snd (ModelTrainer_run env self tbrun epochs s)) =
           calls s @ [BeginRun, BeginEpoch] @ Train_run_trace (train self) @ Test_run_trace (test self)"
proof -
  let ?s1 = "runmanager_begin_run env tbrun s"
  note e = ModelTrainer_epoch_plateau[OF assms(1,2), of env ?s1]
  show "fst (ModelTrainer_run env self tbrun epochs s) = Inl AttributeError"
    by (rule ModelTrainer_run_stop(1)[OF e(1) assms(3)])
  show "calls (snd (ModelTrainer_run env self tbrun epochs s)) =
           calls s @ [BeginRun, BeginEpoch] @ Train_run_trace (train self) @ Test_run_trace (test self)"
    unfolding ModelTrainer_run_stop(2)[OF e(1) assms(3)] e(2) by simp
qed

lemma ModelTrainer_run_train_raises:
  assumes "train_scheduler (train self) = Some ReduceLROnPlateau"
    and "train_dataloader (train self) \<noteq> []" and "1 \<le> epochs"
  shows "fst (ModelTrainer_run env self tbrun epochs s) = Inl TypeError"
    and "calls (snd (ModelTrainer_run env self tbrun epochs s)) =
           calls s @ [BeginRun, BeginEpoch] @ Train_run_trace (train self)"
proof -
  let ?s1 = "runmanager_begin_run env tbrun s"
  note e = ModelTrainer_epoch_train_raises[OF assms(1,2), of env ?s1]
  show "fst (ModelTrainer_run env self tbrun epochs s) = Inl TypeError"
    by (rule ModelTrainer_run_stop(1)[OF e(1) assms(3)])
  show "calls (snd (ModelTrainer_run env self tbrun epochs s)) =
           calls s @ [BeginRun, BeginEpoch] @ Train_run_trace (train self)"
    unfolding ModelTrainer_run_stop(2)[OF e(1) assms(3)] e(2) by simp
qed

lemma ModelTrainer_run_no_epochs:
  assumes "epochs < 1"
  shows "fst (ModelTrainer_run env self tbrun epochs s) = Inr ()"
    and "calls (snd (ModelTrainer_run env self tbrun epochs s)) = calls s @ [BeginRun, Save]"
  using assms by (simp_all add: ModelTrainer_run_def Let_def)

lemma ModelTrainer_init_fields:
  "mt_scheduler (ModelTrainer_init trainl testl sched bsched lam) = sched"
  "batch_scheduler (ModelTrainer_init trainl testl sched bsched lam) = bsched"
  "test_scheduler (test (ModelTrainer_init trainl testl sched bsched lam)) = sched"
  "test_dataloader (test (ModelTrainer_init trainl testl sched bsched lam)) = testl"
  "train_scheduler (train (ModelTrainer_init trainl testl sched bsched lam)) =
     (if bsched then sched else None)"
  "train_dataloader (train (ModelTrainer_init trainl testl sched bsched lam)) = trainl"
  "train_L1lambda (train (ModelTrainer_init trainl testl sched bsched lam)) = lam"
  by (simp_all add: ModelTrainer_init_def Train_init_def Test_init_def)

lemma in_concat_const: "x \<in> set (concat (map (\<lambda>_. tr) es)) \<Longrightarrow> x \<in> set tr"
  by (induction es) auto

lemma in_frame: "x \<in> set ([a] @ xs @ [b]) \<Longrightarrow> x \<noteq> a \<Longrightarrow> x \<noteq> b \<Longrightarrow> x \<in> set xs"
  by auto

lemma Train_run_trace_steps:
  "SchedulerStep who \<in> set (Train_run_trace tr) \<Longrightarrow> who = ByTrain \<and> train_scheduler tr \<noteq> None"
  by (auto split: if_splits)

lemma Test_run_trace_steps: "SchedulerStep who \<notin> set (Test_run_trace te)"
  by auto

lemma ModelTrainer_epoch_trace_steps:
  assumes "SchedulerStep who \<in> set (ModelTrainer_epoch_trace mt)"
  shows "(who = ByTrain \<and> train_scheduler (train mt) \<noteq> None) \<or>
         (who = ByModelTrainer \<and> epoch_scheduler_step mt)"
proof -
  from assms consider "SchedulerStep who \<in> set (Train_run_trace (train mt))"
    | "SchedulerStep who \<in> set (Test_run_trace (test mt))"
    | "SchedulerStep who \<in> set (if epoch_scheduler_step mt then [SchedulerStep ByModelTrainer] else [])"
    by auto
  then show ?thesis
  proof cases
    case 1
    then show ?thesis using Train_run_trace_steps[of who "train mt"] by blast
  next
    case 2
    then show ?thesis using Test_run_trace_steps[of who "test mt"] by blast
  next
    case 3
    then show ?thesis by (auto split: if_splits)
  qed
qed

lemma filter_concat_const:
  "filter P (concat (map (\<lambda>_. tr) es)) = concat (map (\<lambda>_. filter P tr) es)"
  by (induction es) auto

lemma drop_prefix: "drop (length xs) (xs @ ys) = ys"
  by simp

lemma filter_frame:
  "filter P ([a] @ concat (map (\<lambda>_. tr) es) @ [b]) =
     filter P [a] @ concat (map (\<lambda>_. filter P tr) es) @ filter P [b]"
  by (simp add: filter_concat_const)

lemma ModelTrainer_run_runmanager_calls:
  assumes "sched \<noteq> Some ReduceLROnPlateau"
  shows "fst (ModelTrainer_run env (ModelTrainer_init trainl testl sched bsched lam) tbrun epochs s) = Inr ()"
    and "filter runmanager_call (drop (length (calls s))
           (calls (snd (ModelTrainer_run env (ModelTrainer_init trainl testl sched bsched lam)
                          tbrun epochs s)))) =
         [BeginRun]
         @ concat (map (\<lambda>epoch.
             [BeginEpoch]
             @ concat (map (\<lambda>batch. [BeginBatch, TrackTrainLoss, TrackTrainNumCorrect, EndBatch]) trainl)
             @ concat (map (\<lambda>batch. [TrackTestLoss, TrackTestNumCorrect]) testl)
             @ [EndEpoch, SaveBest]) [1..epochs])
         @ [Save]"
proof -
  let ?mt = "ModelTrainer_init trainl testl sched bsched lam"
  have ts: "test_scheduler (test ?mt) \<noteq> Some ReduceLROnPlateau"
    using assms by (simp add: ModelTrainer_init_fields)
  have tr: "train_scheduler (train ?mt) \<noteq> Some ReduceLROnPlateau \<or> train_dataloader (train ?mt) = []"
    using assms by (simp add: ModelTrainer_init_fields)
  have np: "train_scheduler (train ?mt) \<noteq> Some ReduceLROnPlateau"
    using assms by (simp add: ModelTrainer_init_fields)
  show "fst (ModelTrainer_run env ?mt tbrun epochs s) = Inr ()"
    by (rule ModelTrainer_run_ok(1)[OF tr ts])
  have ep: "filter runmanager_call (ModelTrainer_epoch_trace ?mt) =
      [BeginEpoch]
      @ concat (map (\<lambda>batch. [BeginBatch, TrackTrainLoss, TrackTrainNumCorrect, EndBatch]) trainl)
      @ concat (map (\<lambda>batch. [TrackTestLoss, TrackTestNumCorrect]) testl)
      @ [EndEpoch, SaveBest]"
    using assms np by (simp add: runmanager_call_def ModelTrainer_init_fields filter_concat_const)
  show "filter runmanager_call (drop (length (calls s))
           (calls (snd (ModelTrainer_run env ?mt tbrun epochs s)))) =
         [BeginRun]
         @ concat (map (\<lambda>epoch.
             [BeginEpoch]
             @ concat (map (\<lambda>batch. [BeginBatch, TrackTrainLoss, TrackTrainNumCorrect, EndBatch]) trainl)
             @ concat (map (\<lambda>batch. [TrackTestLoss, TrackTestNumCorrect]) testl)
             @ [EndEpoch, SaveBest]) [1..epochs])
         @ [Save]"
  proof -
    have "filter runmanager_call (drop (length (calls s))
            (calls (snd (ModelTrainer_run env ?mt tbrun epochs s)))) =
          filter runmanager_call ([BeginRun]
            @ concat (map (\<lambda>_. ModelTrainer_epoch_trace ?mt) [1..epochs]) @ [Save])"
      by (simp only: ModelTrainer_run_ok(2)[OF tr ts] drop_prefix)
    also have "\<dots> = filter runmanager_call [BeginRun]
            @ concat (map (\<lambda>_. filter runmanager_call (ModelTrainer_epoch_trace ?mt)) [1..epochs])
            @ filter runmanager_call [Save]"
      by (rule filter_frame)
    also have "\<dots> = [BeginRun]
         @ concat (map (\<lambda>epoch.
             [BeginEpoch]
             @ concat (map (\<lambda>batch. [BeginBatch, TrackTrainLoss, TrackTrainNumCorrect, EndBatch]) trainl)
             @ concat (map (\<lambda>batch. [TrackTestLoss, TrackTestNumCorrect]) testl)
             @ [EndEpoch, SaveBest]) [1..epochs])
         @ [Save]"
      unfolding ep by (simp add: runmanager_call_def)
    finally show ?thesis .
  qed
qed

section \<open>The claims\<close>

text \<open>
  Claim C1. For every batch that \<open>Train.run\<close> processes, the loss on which \<open>backward\<close> is
  called is \<open>lossfn(model(data), target)\<close> plus \<open>L1lambda\<close> times the sum, over all
  parameters of the model, of the absolute values of their entries when \<open>L1lambda > 0\<close>,
  and \<open>lossfn(model(data), target)\<close> unchanged otherwise, so when \<open>L1lambda = 0\<close>. The batch
  is the last one of a run over \<open>bs @ [(data, target)]\<close>, and it is processed when the run
  over the batches \<open>bs\<close> before it has returned without an exception; the model is in
  training mode and has the parameters that the run over \<open>bs\<close> has left. The backward pass
  of the batch is made also when the scheduler step that ends the batch raises. Losses are
  real numbers.
\<close>

theorem Train_run_backpropagated:
  assumes "fst (Train_run env (self\<lparr>train_dataloader := bs\<rparr>) s) = Inr ()"
  shows "backpropagated (snd (Train_run env (self\<lparr>train_dataloader := bs @ [(data, target)]\<rparr>) s)) =
     backpropagated (snd (Train_run env (self\<lparr>train_dataloader := bs\<rparr>) s)) @
       [if train_L1lambda self > 0
        then lossfn env (model_forward env
               (model_parameters (snd (Train_run env (self\<lparr>train_dataloader := bs\<rparr>) s))) True data) target
             + train_L1lambda self *
               (\<Sum>p\<leftarrow>model_parameters (snd (Train_run env (self\<lparr>train_dataloader := bs\<rparr>) s)). \<Sum>e\<leftarrow>p. \<bar>e\<bar>)
        else lossfn env (model_forward env
               (model_parameters (snd (Train_run env (self\<lparr>train_dataloader := bs\<rparr>) s))) True data) target]"
proof -
  have tr: "model_training (snd (Train_run env (self\<lparr>train_dataloader := bs\<rparr>) s)) = True"
    by (simp add: Train_run_training)
  show ?thesis
    unfolding Train_run_snoc[OF assms] Train_batch_backpropagated tr by simp
qed

text \<open>
  An instance: the parameter 1, the learning rate 1, \<open>L1lambda = 1\<close> and the batches
  \<open>(1, 0)\<close> and \<open>(2, 0)\<close>. The first batch returns and leaves the parameter \<open>1 - (1 + 1)\<close>;
  the loss backpropagated in the second batch is \<open>- 1 * 2 - 0 + 1 * \<bar>- 1\<bar>\<close>.
\<close>

theorem Train_run_backpropagated_witness:
  "fst (Train_run example_env (Train_init [(1, 0)] None 1) example_world) = Inr () \<and>
   model_parameters (snd (Train_run example_env (Train_init [(1, 0)] None 1) example_world)) = [[- 1]] \<and>
   backpropagated (snd (Train_run example_env (Train_init [(1, 0), (2, 0)] None 1) example_world)) =
     backpropagated (snd (Train_run example_env (Train_init [(1, 0)] None 1) example_world)) @ [- 1]"
proof -
  let ?one = "Train_init [(1, 0)] None 1 :: (real, real) Train"
  have u: "?one\<lparr>train_dataloader := [(1, 0)]\<rparr> = ?one"
    "?one\<lparr>train_dataloader := [(1, 0)] @ [(2, 0)]\<rparr> = Train_init [(1, 0), (2, 0)] None 1"
    by (simp_all add: Train_init_def)
  have r: "fst (Train_run example_env ?one example_world) = Inr ()"
    by (simp add: Train_run_result Train_init_def)
  have s0: "Train_run example_env ?one example_world =
      Train_batch example_env ?one (1, 0)
        (record_call ModelTrain (example_world\<lparr>model_training := True\<rparr>))"
    by (simp add: Train_run_def Train_init_def split: prod.splits sum.splits)
  have p: "model_parameters (snd (Train_run example_env ?one example_world)) = [[- 1]]"
    unfolding s0 Train_batch_gradient
    by (simp add: example_env_def example_world_def Train_init_def zeros_like_def add_grads_def
        l1_grad_def)
  have l: "train_L1lambda ?one = 1"
    by (simp add: Train_init_def)
  show ?thesis
    using Train_run_backpropagated[where env = example_env and self = "?one" and bs = "[(1, 0)]"
        and s = example_world and data = 2 and target = 0] r p
    unfolding u l
    by (simp add: example_env_def)
qed

text \<open>
  Claim C2, as the code has it. Every batch starts with \<open>optimizer.zero_grad()\<close>, so the
  batch does not depend on the gradients that earlier backward passes have left in the
  buffers: after \<open>backward\<close> the buffers hold the gradient of the loss of this batch alone,
  added to zero, and the optimizer step is taken with it. Gradients are not accumulated
  from one batch to the next.
\<close>

theorem Train_batch_own_gradient:
  "Train_batch env self (data, target) (s\<lparr>model_grad := g0\<rparr>) = Train_batch env self (data, target) s
   \<and> model_grad (snd (Train_batch env self (data, target) s)) =
       add_grads (zeros_like (model_parameters s))
         (if train_L1lambda self > 0
          then add_grads (loss_grad env (model_parameters s) (model_training s) data target)
                 (l1_grad (train_L1lambda self) (model_parameters s))
          else loss_grad env (model_parameters s) (model_training s) data target)
   \<and> model_parameters (snd (Train_batch env self (data, target) s)) =
       snd (optimizer_step env (optimizer_state s) (model_parameters s)
              (add_grads (zeros_like (model_parameters s))
                 (if train_L1lambda self > 0
                  then add_grads (loss_grad env (model_parameters s) (model_training s) data target)
                         (l1_grad (train_L1lambda self) (model_parameters s))
                  else loss_grad env (model_parameters s) (model_training s) data target)))"
  using Train_batch_gradient[of env self data target s]
  by (simp add: Train_batch_grad_reset)

text \<open>
  Claim C2, as stated, fails. With the parameter 1, the learning rate 1 and two batches whose
  losses have the gradients 1 and 2, the buffer holds 1 after the first batch and 2, not
  1 + 2, after the second one; the parameter ends at 1 - 1 - 2.
\<close>

theorem no_gradient_accumulation_counterexample:
  "model_grad (snd (Train_run example_env (Train_init [(1, 0)] None 0) example_world)) = [[1]] \<and>
   model_grad (snd (Train_run example_env (Train_init [(1, 0), (2, 0)] None 0) example_world)) = [[2]] \<and>
   model_grad (snd (Train_run example_env (Train_init [(1, 0), (2, 0)] None 0) example_world)) \<noteq>
     add_grads (model_grad (snd (Train_run example_env (Train_init [(1, 0)] None 0) example_world))) [[2]] \<and>
   model_parameters (snd (Train_run example_env (Train_init [(1, 0), (2, 0)] None 0) example_world)) = [[- 2]]"
proof -
  let ?s0 = "record_call ModelTrain (example_world\<lparr>model_training := True\<rparr>)"
  let ?one = "Train_init [(1, 0)] None 0 :: (real, real) Train"
  let ?two = "Train_init [(1, 0), (2, 0)] None 0 :: (real, real) Train"
  have s0: "model_parameters ?s0 = [[1]]" "optimizer_state ?s0 = 1"
    by (simp_all add: example_world_def)
  have l: "train_dataloader ?one = [(1, 0)]" "train_dataloader ?two = [(1, 0), (2, 0)]"
    by (simp_all add: Train_init_def)
  note a1 = example_Train_batch[OF s0, of "[(1, 0)]" 1 0]
  note b1 = example_Train_batch[OF s0, of "[(1, 0), (2, 0)]" 1 0]
  obtain u1 where f1: "Train_batch example_env ?one (1, 0) ?s0 = (Inr (), u1)"
    using a1 by blast
  obtain s1 where e1: "Train_batch example_env ?two (1, 0) ?s0 = (Inr (), s1)"
    using b1 by blast
  have p1: "model_parameters s1 = [[0]]" and o1: "optimizer_state s1 = 1"
    using b1 unfolding e1 by simp_all
  note b2 = example_Train_batch[OF p1 o1, of "[(1, 0), (2, 0)]" 2 0]
  obtain s2 where e2: "Train_batch example_env ?two (2, 0) s1 = (Inr (), s2)"
    using b2 by blast
  have r1: "snd (Train_run example_env ?one example_world) = u1"
    unfolding Train_run_def l by (simp add: f1)
  have r2: "snd (Train_run example_env ?two example_world) = s2"
    unfolding Train_run_def l by (simp add: e1 e2)
  show ?thesis
    unfolding r1 r2 using a1 b2 unfolding f1 e2 by (simp add: add_grads_def)
qed

text \<open>
  Claim C3, as the code has it. In every batch of \<open>Train.run\<close> the calls are made in this
  order: the gradients are zeroed, then the forward pass, the loss, the backward pass and
  the optimizer step, then the tracking of loss and correct predictions and \<open>end_batch\<close>.
  The last statement of the batch is \<open>scheduler.step()\<close>, when the runner has a scheduler:
  a scheduler other than ReduceLROnPlateau is stepped there, as the last call of the batch,
  and the batch returns; on a ReduceLROnPlateau the call raises, no step is performed, and
  the first batch is the last one of the run. \<open>Train.run\<close> sets the model to training mode
  and then makes the calls of a batch once for every batch it processes.
\<close>

theorem Train_run_call_order:
  "calls (snd (Train_batch env self batch s)) =
     calls s @ [BeginBatch, ToDevice, ToDevice, ZeroGrad, Forward, LossFn]
       @ (if train_L1lambda self > 0 then [L1Penalty] else [])
       @ [Backward, OptimizerStep, TrackTrainLoss, TrackTrainNumCorrect]
       @ (if train_scheduler self \<noteq> None then [GetLastLr] else [])
       @ [EndBatch, SetDescription]
       @ (if train_scheduler self = Some OtherScheduler then [SchedulerStep ByTrain] else [])
   \<and> fst (Train_batch env self batch s) =
       (if train_scheduler self = Some ReduceLROnPlateau then Inl TypeError else Inr ())
   \<and> calls (snd (Train_run env self s)) =
       calls s @ ModelTrain # concat (map (\<lambda>batch. Train_batch_trace self)
         (if train_scheduler self = Some ReduceLROnPlateau
          then take 1 (train_dataloader self) else train_dataloader self))
   \<and> fst (Train_run env self s) =
       (if train_scheduler self = Some ReduceLROnPlateau \<and> train_dataloader self \<noteq> []
        then Inl TypeError else Inr ())"
  using Train_batch_calls[of env self batch s] Train_batch_result[of env self batch s]
    Train_run_calls[of env self s] Train_run_result[of env self s]
  by simp

text \<open>
  Claim C3, as stated, fails. A training runner with a ReduceLROnPlateau has a scheduler,
  and no scheduler step is performed in its batches: the call at the end of the first
  batch raises, and the second batch is not processed.
\<close>

theorem Train_run_plateau_counterexample:
  "train_scheduler (Train_init [(1, 0), (2, 0)] (Some ReduceLROnPlateau) 0 :: (real, real) Train) \<noteq> None \<and>
   fst (Train_run example_env (Train_init [(1, 0), (2, 0)] (Some ReduceLROnPlateau) 0) example_world) =
     Inl TypeError \<and>
   calls (snd (Train_run example_env (Train_init [(1, 0), (2, 0)] (Some ReduceLROnPlateau) 0) example_world)) =
     [ModelTrain, BeginBatch, ToDevice, ToDevice, ZeroGrad, Forward, LossFn, Backward,
      OptimizerStep, TrackTrainLoss, TrackTrainNumCorrect, GetLastLr, EndBatch, SetDescription] \<and>
   SchedulerStep ByTrain \<notin>
     set (calls (snd (Train_run example_env (Train_init [(1, 0), (2, 0)] (Some ReduceLROnPlateau) 0) example_world)))"
proof -
  let ?t = "Train_init [(1, 0), (2, 0)] (Some ReduceLROnPlateau) 0 :: (real, real) Train"
  have f: "train_scheduler ?t = Some ReduceLROnPlateau" "train_dataloader ?t = [(1, 0), (2, 0)]"
    "train_L1lambda ?t = 0"
    by (simp_all add: Train_init_def)
  have c: "calls example_world = []"
    by (simp add: example_world_def)
  show ?thesis
    unfolding Train_run_calls Train_run_result f c by simp
qed

text \<open>
  Claim C4 at a ModelTrainer whose scheduler is a ReduceLROnPlateau, with one training
  batch, one test batch and one epoch: \<open>ModelTrainer.run\<close> ends with the AttributeError of
  the first evaluation pass. The run manager receives \<open>begin_run\<close>, \<open>begin_epoch\<close>, the calls
  of the training batch and of the test batch and \<open>get_test_loss\<close>; it receives neither
  \<open>end_epoch\<close> nor \<open>savebest\<close> nor \<open>save\<close>. With any other scheduler, or none, the calls are
  those of the claim (lemma \<open>ModelTrainer_run_runmanager_calls\<close>).
\<close>

theorem ModelTrainer_run_plateau_stops:
  "fst (ModelTrainer_run example_env
          (ModelTrainer_init [(1, 0)] [(1, 0)] (Some ReduceLROnPlateau) False 0) ''run'' 1
          example_world) = Inl AttributeError \<and>
   filter runmanager_call (calls (snd (ModelTrainer_run example_env
          (ModelTrainer_init [(1, 0)] [(1, 0)] (Some ReduceLROnPlateau) False 0) ''run'' 1
          example_world))) =
     [BeginRun, BeginEpoch, BeginBatch, TrackTrainLoss, TrackTrainNumCorrect, EndBatch,
      TrackTestLoss, TrackTestNumCorrect, GetTestLoss] \<and>
   EndEpoch \<notin> set (calls (snd (ModelTrainer_run example_env
          (ModelTrainer_init [(1, 0)] [(1, 0)] (Some ReduceLROnPlateau) False 0) ''run'' 1
          example_world))) \<and>
   SaveBest \<notin> set (calls (snd (ModelTrainer_run example_env
          (ModelTrainer_init [(1, 0)] [(1, 0)] (Some ReduceLROnPlateau) False 0) ''run'' 1
          example_world))) \<and>
   Save \<notin> set (calls (snd (ModelTrainer_run example_env
          (ModelTrainer_init [(1, 0)] [(1, 0)] (Some ReduceLROnPlateau) False 0) ''run'' 1
          example_world)))"
proof -
  let ?mt = "ModelTrainer_init [(1 :: real, 0 :: real)] [(1, 0)] (Some ReduceLROnPlateau) False 0"
  have ts: "test_scheduler (test ?mt) = Some ReduceLROnPlateau"
    by (simp add: ModelTrainer_init_fields)
  have tr: "train_scheduler (train ?mt) \<noteq> Some ReduceLROnPlateau \<or> train_dataloader (train ?mt) = []"
    by (simp add: ModelTrainer_init_fields)
  have one: "(1::int) \<le> 1" by simp
  have e: "calls example_world = []" by (simp add: example_world_def)
  have c: "calls (snd (ModelTrainer_run example_env ?mt ''run'' 1 example_world)) =
      [BeginRun, BeginEpoch, ModelTrain,
       BeginBatch, ToDevice, ToDevice, ZeroGrad, Forward, LossFn, Backward, OptimizerStep,
       TrackTrainLoss, TrackTrainNumCorrect, EndBatch, SetDescription,
       ModelEval, NoGradEnter, ToDevice, ToDevice, Forward, LossFn, TrackTestLoss,
       TrackTestNumCorrect, GetTestLoss, PbarWrite, NoGradExit]"
    by (simp add: ModelTrainer_run_plateau(2)[OF tr ts one] e ModelTrainer_init_fields)
  show ?thesis
    unfolding c by (simp add: ModelTrainer_run_plateau(1)[OF tr ts one] runmanager_call_def)
qed

text \<open>
  Claim C5, as the code has it. \<open>Test.run\<close> leaves the parameters of the model, their
  gradient buffers and the state of optimizer and scheduler unchanged, and calls \<open>backward\<close>
  on no loss. Its forward passes lie between entering and leaving \<open>torch.no_grad\<close>, and it
  makes no backward pass and no optimizer step. What it changes is the state of the run
  manager and the mode of the model, which \<open>model.eval()\<close> sets to evaluation.
\<close>

theorem Test_run_frame:
  "snd (Test_run env self s) =
     s\<lparr>model_training := False,
       runmanager_state := runmanager_state (snd (Test_run env self s)),
       calls := calls s @ [ModelEval, NoGradEnter]
         @ concat (map (\<lambda>batch. [ToDevice, ToDevice, Forward, LossFn, TrackTestLoss, TrackTestNumCorrect])
                     (test_dataloader self))
         @ (if test_scheduler self = Some ReduceLROnPlateau then [GetTestLoss, PbarWrite] else [])
         @ [NoGradExit]\<rparr>"
  by (rule world.equality) (simp_all add: Test_run_fields)

text \<open>
  Claim C5, as stated, fails: the statistics of the run manager are not the only state
  that changes. A model in training mode is in evaluation mode after \<open>Test.run\<close>.
\<close>

theorem Test_run_mode_counterexample:
  "model_training example_world \<and>
   \<not> model_training (snd (Test_run example_env (Test_init [(1, 0)] None) example_world))"
  by (simp add: Test_run_fields example_world_def)

text \<open>
  Claim C6, as the code has it. For an input of shape N x planes x H x W without an empty
  dimension, on which the batch normalisations have more than one value per channel
  (\<open>N * H * W > 1\<close>) or are in evaluation mode, every layer of \<open>ResBlock.forward\<close> returns and
  the result is \<open>x + relu(bn2(conv2(relu(bn1(conv1(x))))))\<close>: it has the shape of the input
  and every entry is the entry of the input plus the entry of the transformed output. The
  constructor gives both convolutions kernel size 3, stride 1 and padding 1, for every
  number of planes.
\<close>

theorem ResBlock_forward_spec:
  assumes c1: "conv1 self = nn_Conv2d planes planes 3 1 1 w1"
    and c2: "conv2 self = nn_Conv2d planes planes 3 1 1 w2"
    and b1: "num_features (bn1 self) = planes"
    and b2: "num_features (bn2 self) = planes"
    and x: "has_shape x n planes h w"
    and pos: "0 < n" "0 < planes" "0 < h" "0 < w"
    and mode: "1 < n * h * w \<or> (\<not> bn_training (bn1 self) \<and> \<not> bn_training (bn2 self))"
  shows "(\<exists>a b c d.
           Conv2d_forward (conv1 self) x = Inr a \<and>
           BatchNorm2d_forward (bn1 self) a = Inr b \<and>
           Conv2d_forward (conv2 self) (F_relu b) = Inr c \<and>
           BatchNorm2d_forward (bn2 self) c = Inr d \<and>
           ResBlock_forward self x = Inr (torch_add x (F_relu d)) \<and>
           has_shape (torch_add x (F_relu d)) n planes h w \<and>
           (\<forall>i<n. \<forall>k<planes. \<forall>r<h. \<forall>j<w.
              torch_add x (F_relu d) ! i ! k ! r ! j = x ! i ! k ! r ! j + max 0 (d ! i ! k ! r ! j)))
         \<and> conv1 (ResBlock_init p v1 v2) = nn_Conv2d p p 3 1 1 v1
         \<and> conv2 (ResBlock_init p v1 v2) = nn_Conv2d p p 3 1 1 v2
         \<and> kernel_size (conv1 (ResBlock_init p v1 v2)) = 3
         \<and> stride (conv1 (ResBlock_init p v1 v2)) = 1
         \<and> padding (conv1 (ResBlock_init p v1 v2)) = 1
         \<and> kernel_size (conv2 (ResBlock_init p v1 v2)) = 3
         \<and> stride (conv2 (ResBlock_init p v1 v2)) = 1
         \<and> padding (conv2 (ResBlock_init p v1 v2)) = 1
         \<and> num_features (bn1 (ResBlock_init p v1 v2)) = p
         \<and> num_features (bn2 (ResBlock_init p v1 v2)) = p"
proof -
  have m: "bn_training (bn1 self) \<or> bn_training (bn2 self) \<longrightarrow> n * h * w \<noteq> 1"
    using mode by auto
  from ResBlock_forward_ok[OF c1 c2 b1 b2 x pos m]
  obtain a b c d where r: "Conv2d_forward (conv1 self) x = Inr a"
      "BatchNorm2d_forward (bn1 self) a = Inr b"
      "Conv2d_forward (conv2 self) (F_relu b) = Inr c"
      "BatchNorm2d_forward (bn2 self) c = Inr d"
      "ResBlock_forward self x = Inr (torch_add x (F_relu d))"
    and sd: "has_shape d n planes h w"
    by blast
  have sh: "has_shape (torch_add x (F_relu d)) n planes h w"
    by (intro torch_add_shape x F_relu_shape sd)
  have en: "\<forall>i<n. \<forall>k<planes. \<forall>r<h. \<forall>j<w.
      torch_add x (F_relu d) ! i ! k ! r ! j = x ! i ! k ! r ! j + max 0 (d ! i ! k ! r ! j)"
    using torch_add_nth[OF x F_relu_shape[OF sd]] F_relu_nth[OF sd] by simp
  have first: "\<exists>a b c d.
           Conv2d_forward (conv1 self) x = Inr a \<and>
           BatchNorm2d_forward (bn1 self) a = Inr b \<and>
           Conv2d_forward (conv2 self) (F_relu b) = Inr c \<and>
           BatchNorm2d_forward (bn2 self) c = Inr d \<and>
           ResBlock_forward self x = Inr (torch_add x (F_relu d)) \<and>
           has_shape (torch_add x (F_relu d)) n planes h w \<and>
           (\<forall>i<n. \<forall>k<planes. \<forall>r<h. \<forall>j<w.
              torch_add x (F_relu d) ! i ! k ! r ! j = x ! i ! k ! r ! j + max 0 (d ! i ! k ! r ! j))"
    using r sh en by blast
  show ?thesis
    using first by (simp add: ResBlock_init_fields nn_Conv2d_fields)
qed

theorem ResBlock_forward_witness:
  "conv1 (ResBlock_init 1 example_weight example_weight) = nn_Conv2d 1 1 3 1 1 example_weight \<and>
   conv2 (ResBlock_init 1 example_weight example_weight) = nn_Conv2d 1 1 3 1 1 example_weight \<and>
   num_features (bn1 (ResBlock_init 1 example_weight example_weight)) = 1 \<and>
   num_features (bn2 (ResBlock_init 1 example_weight example_weight)) = 1 \<and>
   has_shape example_image 1 1 2 2 \<and> (1 :: nat) < 1 * 2 * 2 \<and>
   (\<exists>y. ResBlock_forward (ResBlock_init 1 example_weight example_weight) example_image = Inr y \<and>
        has_shape y 1 1 2 2)"
proof -
  let ?rb = "ResBlock_init 1 example_weight example_weight"
  have c1: "conv1 ?rb = nn_Conv2d 1 1 3 1 1 example_weight"
    and c2: "conv2 ?rb = nn_Conv2d 1 1 3 1 1 example_weight"
    and b1: "num_features (bn1 ?rb) = 1" and b2: "num_features (bn2 ?rb) = 1"
    by (simp_all add: ResBlock_init_fields)
  have x: "has_shape example_image 1 1 2 2"
    by (simp add: example_image_def has_shape_def has_shape3_def)
  have m: "1 < (1::nat) * 2 * 2 \<or> (\<not> bn_training (bn1 ?rb) \<and> \<not> bn_training (bn2 ?rb))"
    by simp
  from ResBlock_forward_spec[OF c1 c2 b1 b2 x _ _ _ _ m, THEN conjunct1]
  have "\<exists>y. ResBlock_forward ?rb example_image = Inr y \<and> has_shape y 1 1 2 2"
    by auto
  with c1 c2 b1 b2 x show ?thesis by simp
qed

text \<open>
  Claim C6, as stated, fails. A block as the constructor leaves it is in training mode; on
  an input of shape 1 x 1 x 1 x 1 the first batch normalisation has a single value per
  channel and \<open>forward\<close> raises ValueError.
\<close>

theorem ResBlock_forward_single_value_counterexample:
  "has_shape example_pixel 1 1 1 1 \<and>
   bn_training (bn1 (ResBlock_init 1 example_weight example_weight)) \<and>
   ResBlock_forward (ResBlock_init 1 example_weight example_weight) example_pixel = Inl ValueError"
proof -
  let ?rb = "ResBlock_init 1 example_weight example_weight"
  have x: "has_shape example_pixel 1 1 1 1"
    by (simp add: example_pixel_def has_shape_def has_shape3_def)
  have k: "kernel_size (conv1 ?rb) = 3" "padding (conv1 ?rb) = 1" "stride (conv1 ?rb) = 1"
    "in_channels (conv1 ?rb) = 1" "out_channels (conv1 ?rb) = 1"
    by (simp_all add: ResBlock_init_fields nn_Conv2d_fields)
  note cv = Conv2d_forward_ok[OF k(1,2,3) x k(4)]
  have a: "Conv2d_forward (conv1 ?rb) example_pixel = Inr (map (conv2d_image (conv1 ?rb)) example_pixel)"
    and sa: "has_shape (map (conv2d_image (conv1 ?rb)) example_pixel) 1 1 1 1"
    using cv k(5) by simp_all
  have t: "bn_training (bn1 ?rb)" by (simp add: ResBlock_init_fields)
  have b: "BatchNorm2d_forward (bn1 ?rb) (map (conv2d_image (conv1 ?rb)) example_pixel) = Inl ValueError"
    by (rule BatchNorm2d_forward_single[OF sa _ t]) simp
  have "ResBlock_forward ?rb example_pixel = Inl ValueError"
    by (simp only: ResBlock_forward_def a b sum.case)
  with x t show ?thesis by blast
qed



text \<open>
  Claim C8. When the scheduler of \<open>Test.run\<close> is a ReduceLROnPlateau, the branch after the
  loop raises: \<open>pbar.write\<close> receives the test loss as its \<open>file\<close> argument, and a number
  has no \<open>write\<close>. The scheduler is not stepped: after \<open>get_test_loss\<close> and \<open>pbar.write\<close>
  only the \<open>no_grad\<close> block is left, and scheduler and optimizer keep their state.
\<close>

theorem Test_run_plateau_raises:
  assumes "test_scheduler self = Some ReduceLROnPlateau"
  shows "fst (Test_run env self s) = Inl AttributeError
       \<and> calls (snd (Test_run env self s)) =
           calls s @ [ModelEval, NoGradEnter]
             @ concat (map (\<lambda>batch. [ToDevice, ToDevice, Forward, LossFn, TrackTestLoss, TrackTestNumCorrect])
                         (test_dataloader self))
             @ [GetTestLoss, PbarWrite, NoGradExit]
       \<and> SchedulerStep ByTest \<notin> set (drop (length (calls s)) (calls (snd (Test_run env self s))))
       \<and> scheduler_state (snd (Test_run env self s)) = scheduler_state s
       \<and> optimizer_state (snd (Test_run env self s)) = optimizer_state s"
  using assms by (auto simp add: Test_run_result Test_run_fields)

theorem Test_run_plateau_witness:
  "test_scheduler (Test_init [(1 :: real, 0 :: real)] (Some ReduceLROnPlateau)) = Some ReduceLROnPlateau \<and>
   fst (Test_run example_env (Test_init [(1, 0)] (Some ReduceLROnPlateau)) example_world) = Inl AttributeError \<and>
   calls (snd (Test_run example_env (Test_init [(1, 0)] (Some ReduceLROnPlateau)) example_world)) =
     [ModelEval, NoGradEnter, ToDevice, ToDevice, Forward, LossFn, TrackTestLoss,
      TrackTestNumCorrect, GetTestLoss, PbarWrite, NoGradExit]"
proof -
  have h: "test_scheduler (Test_init [(1, 0)] (Some ReduceLROnPlateau) :: (real, real) Test) = Some ReduceLROnPlateau"
    by (simp add: Test_init_def)
  show ?thesis
    using h Test_run_plateau_raises[OF h, of example_env example_world]
    by (simp add: Test_init_def example_world_def)
qed

text \<open>
  Claim C9. In a run of a ModelTrainer the scheduler is stepped on at most one of the two
  cadences. The training runner receives the scheduler only when \<open>batch_scheduler\<close> is true,
  and only then steps it after a batch; \<open>ModelTrainer.run\<close> steps it after an epoch only
  when there is a scheduler, \<open>batch_scheduler\<close> is false and the scheduler is not a
  ReduceLROnPlateau. The calls of the run never hold both kinds of step.
\<close>

theorem ModelTrainer_scheduler_cadence:
  "\<exists>new. calls (snd (ModelTrainer_run env
                    (ModelTrainer_init trainl testl sched bsched lam) tbrun epochs s)) = calls s @ new
     \<and> (SchedulerStep ByTrain \<in> set new \<longrightarrow> bsched \<and> sched \<noteq> None)
     \<and> (SchedulerStep ByModelTrainer \<in> set new \<longrightarrow>
          \<not> bsched \<and> sched \<noteq> None \<and> sched \<noteq> Some ReduceLROnPlateau)
     \<and> \<not> (SchedulerStep ByTrain \<in> set new \<and> SchedulerStep ByModelTrainer \<in> set new)
     \<and> train_scheduler (train (ModelTrainer_init trainl testl sched bsched lam)) =
          (if bsched then sched else None)"
proof -
  let ?mt = "ModelTrainer_init trainl testl sched bsched lam"
  have tr: "train_scheduler (train ?mt) \<noteq> None \<Longrightarrow> bsched \<and> sched \<noteq> None"
    by (simp add: ModelTrainer_init_fields split: if_splits)
  have ep: "epoch_scheduler_step ?mt \<Longrightarrow>
      \<not> bsched \<and> sched \<noteq> None \<and> sched \<noteq> Some ReduceLROnPlateau"
    by (auto simp add: ModelTrainer_init_fields split: option.splits)
  have key: "\<exists>new. calls (snd (ModelTrainer_run env ?mt tbrun epochs s)) = calls s @ new \<and>
      (\<forall>who. SchedulerStep who \<in> set new \<longrightarrow>
         (who = ByTrain \<and> train_scheduler (train ?mt) \<noteq> None) \<or>
         (who = ByModelTrainer \<and> epoch_scheduler_step ?mt))"
  proof -
    consider (none) "epochs < 1"
      | (raises) "1 \<le> epochs" "train_scheduler (train ?mt) = Some ReduceLROnPlateau"
          "train_dataloader (train ?mt) \<noteq> []"
      | (plateau) "1 \<le> epochs"
          "train_scheduler (train ?mt) \<noteq> Some ReduceLROnPlateau \<or> train_dataloader (train ?mt) = []"
          "test_scheduler (test ?mt) = Some ReduceLROnPlateau"
      | (other)
          "train_scheduler (train ?mt) \<noteq> Some ReduceLROnPlateau \<or> train_dataloader (train ?mt) = []"
          "test_scheduler (test ?mt) \<noteq> Some ReduceLROnPlateau"
      by linarith
    then show ?thesis
    proof cases
      case none
      show ?thesis
        by (rule exI[of _ "[BeginRun, Save]"]) (simp add: ModelTrainer_run_no_epochs[OF none])
    next
      case raises
      have "\<forall>who. SchedulerStep who \<in> set ([BeginRun, BeginEpoch] @ Train_run_trace (train ?mt)) \<longrightarrow>
              who = ByTrain \<and> train_scheduler (train ?mt) \<noteq> None"
        using Train_run_trace_steps[of _ "train ?mt"] by simp
      then show ?thesis
        using ModelTrainer_run_train_raises(2)[OF raises(2,3,1), of env tbrun s] by blast
    next
      case plateau
      have "\<forall>who. SchedulerStep who \<in> set ([BeginRun, BeginEpoch] @ Train_run_trace (train ?mt)
                @ Test_run_trace (test ?mt)) \<longrightarrow>
              who = ByTrain \<and> train_scheduler (train ?mt) \<noteq> None"
        using Train_run_trace_steps[of _ "train ?mt"] Test_run_trace_steps[of _ "test ?mt"] by simp
      then show ?thesis
        using ModelTrainer_run_plateau(2)[OF plateau(2,3,1), of env tbrun s] by blast
    next
      case other
      have "\<forall>who. SchedulerStep who \<in> set ([BeginRun]
                @ concat (map (\<lambda>_. ModelTrainer_epoch_trace ?mt) [1..epochs]) @ [Save]) \<longrightarrow>
            (who = ByTrain \<and> train_scheduler (train ?mt) \<noteq> None) \<or>
            (who = ByModelTrainer \<and> epoch_scheduler_step ?mt)"
      proof (intro allI impI)
        fix who
        assume "SchedulerStep who \<in> set ([BeginRun]
                @ concat (map (\<lambda>_. ModelTrainer_epoch_trace ?mt) [1..epochs]) @ [Save])"
        then have "SchedulerStep who \<in> set (concat (map (\<lambda>_. ModelTrainer_epoch_trace ?mt) [1..epochs]))"
          by (rule in_frame) simp_all
        then have "SchedulerStep who \<in> set (ModelTrainer_epoch_trace ?mt)"
          by (rule in_concat_const)
        then show "(who = ByTrain \<and> train_scheduler (train ?mt) \<noteq> None) \<or>
            (who = ByModelTrainer \<and> epoch_scheduler_step ?mt)"
          by (rule ModelTrainer_epoch_trace_steps)
      qed
      then show ?thesis
        using ModelTrainer_run_ok(2)[OF other, of env tbrun epochs s] by blast
    qed
  qed
  then obtain new where c: "calls (snd (ModelTrainer_run env ?mt tbrun epochs s)) = calls s @ new"
    and steps: "\<And>who. SchedulerStep who \<in> set new \<Longrightarrow>
         (who = ByTrain \<and> train_scheduler (train ?mt) \<noteq> None) \<or>
         (who = ByModelTrainer \<and> epoch_scheduler_step ?mt)"
    by blast
  have a: "SchedulerStep ByTrain \<in> set new \<longrightarrow> bsched \<and> sched \<noteq> None"
    using steps[of ByTrain] tr by auto
  have b: "SchedulerStep ByModelTrainer \<in> set new \<longrightarrow>
          \<not> bsched \<and> sched \<noteq> None \<and> sched \<noteq> Some ReduceLROnPlateau"
    using steps[of ByModelTrainer] ep by auto
  have d: "train_scheduler (train ?mt) = (if bsched then sched else None)"
    by (simp add: ModelTrainer_init_fields)
  show ?thesis
    using c a b d by blast
qed

theorem ModelTrainer_scheduler_cadence_witness:
  "SchedulerStep ByTrain \<in> set (calls (snd (ModelTrainer_run example_env
       (ModelTrainer_init [(1, 0)] [(1, 0)] (Some OtherScheduler) True 0) ''run'' 1 example_world))) \<and>
   SchedulerStep ByModelTrainer \<notin> set (calls (snd (ModelTrainer_run example_env
       (ModelTrainer_init [(1, 0)] [(1, 0)] (Some OtherScheduler) True 0) ''run'' 1 example_world))) \<and>
   SchedulerStep ByModelTrainer \<in> set (calls (snd (ModelTrainer_run example_env
       (ModelTrainer_init [(1, 0)] [(1, 0)] (Some OtherScheduler) False 0) ''run'' 1 example_world))) \<and>
   SchedulerStep ByTrain \<notin> set (calls (snd (ModelTrainer_run example_env
       (ModelTrainer_init [(1, 0)] [(1, 0)] (Some OtherScheduler) False 0) ''run'' 1 example_world)))"
proof -
  let ?a = "ModelTrainer_init [(1 :: real, 0 :: real)] [(1, 0)] (Some OtherScheduler) True 0"
  let ?b = "ModelTrainer_init [(1 :: real, 0 :: real)] [(1, 0)] (Some OtherScheduler) False 0"
  have ta: "test_scheduler (test ?a) \<noteq> Some ReduceLROnPlateau"
    and tb: "test_scheduler (test ?b) \<noteq> Some ReduceLROnPlateau"
    and ra: "train_scheduler (train ?a) \<noteq> Some ReduceLROnPlateau \<or> train_dataloader (train ?a) = []"
    and rb: "train_scheduler (train ?b) \<noteq> Some ReduceLROnPlateau \<or> train_dataloader (train ?b) = []"
    by (simp_all add: ModelTrainer_init_fields)
  have e: "calls example_world = []" by (simp add: example_world_def)
  have one: "[1..1] = [1::int]" by (simp add: upto_rec1)
  have ina: "SchedulerStep ByTrain \<in> set (calls (snd (ModelTrainer_run example_env ?a ''run'' 1 example_world)))"
    by (simp add: ModelTrainer_run_ok(2)[OF ra ta] e one ModelTrainer_init_fields)
  have inb: "SchedulerStep ByModelTrainer \<in> set (calls (snd (ModelTrainer_run example_env ?b ''run'' 1 example_world)))"
    by (simp add: ModelTrainer_run_ok(2)[OF rb tb] e one ModelTrainer_init_fields)
  from ModelTrainer_scheduler_cadence[of example_env "[(1, 0)]" "[(1, 0)]" "Some OtherScheduler" True 0 "''run''" 1 example_world]
  have nota: "SchedulerStep ByModelTrainer \<notin> set (calls (snd (ModelTrainer_run example_env ?a ''run'' 1 example_world)))"
    using ina unfolding e by auto
  from ModelTrainer_scheduler_cadence[of example_env "[(1, 0)]" "[(1, 0)]" "Some OtherScheduler" False 0 "''run''" 1 example_world]
  have notb: "SchedulerStep ByTrain \<notin> set (calls (snd (ModelTrainer_run example_env ?b ''run'' 1 example_world)))"
    using inb unfolding e by auto
  show ?thesis using ina nota inb notb by blast
qed

text \<open>
  Claim C10. For labels of shape N x 1 x H x W with entries in \<open>[0, num_classes)\<close>,
  \<open>make_one_hot\<close> returns a tensor of shape N x num_classes x H x W whose entry at
  \<open>(n, k, h, w)\<close> is 1 when \<open>k\<close> is the label at \<open>(n, 0, h, w)\<close> and 0 otherwise.
\<close>

theorem make_one_hot_spec:
  assumes shape: "has_shape labels n 1 h w"
    and range: "list_all (list_all (list_all (list_all (\<lambda>k. 0 \<le> k \<and> k < int num_classes)))) labels"
  shows "\<exists>t. make_one_hot labels num_classes device = Inr t \<and> has_shape t n num_classes h w \<and>
           (\<forall>i<n. \<forall>k<num_classes. \<forall>a<h. \<forall>b<w.
              t ! i ! k ! a ! b = (if int k = labels ! i ! 0 ! a ! b then 1 else 0))"
proof (cases "n = 0")
  case True
  then have "labels = []" using shape by (simp add: has_shape_def)
  then have "make_one_hot labels num_classes device = Inr []"
    by (simp add: make_one_hot_def scatter_dim1_def zeros4_def size0_def)
  then show ?thesis using True by (simp add: has_shape_def)
next
  case False
  then have npos: "0 < n" by simp
  define z where "z = replicate num_classes (replicate h (replicate (size3 labels) (0::real)))"
  from shape have shape': "has_shape labels n (Suc 0) h w" by simp
  note Z = zeros4_like_labels[OF shape' npos, of num_classes, folded z_def]
  have zs: "has_shape3 z num_classes h w" using Z by simp
  have len: "length labels = n" and imgs: "\<And>i. i < n \<Longrightarrow> has_shape3 (labels ! i) 1 h w"
    using shape by (auto simp: has_shape_def list_all_length)
  have ok: "index_ok z (labels ! i)" if "i < n" for i
    using range that len by (simp add: index_ok_def list_all_length z_def)
  define t where "t = map (\<lambda>idx. scatter_image z idx 1) labels"
  have zipeq: "zip (replicate n z) labels = map (\<lambda>idx. (z, idx)) labels"
    using len by (induction labels arbitrary: n) auto
  have allok: "list_all (\<lambda>(img, idx). index_ok img idx) (zip (replicate n z) labels)"
    using ok len by (simp add: zipeq list_all_length)
  have res: "make_one_hot labels num_classes device = Inr t"
    using Z allok by (simp add: make_one_hot_def scatter_dim1_def t_def zipeq comp_def)
  have tsh: "has_shape t n num_classes h w"
    using len scatter_image_one_hot(1)[OF imgs zs ok]
    by (simp add: has_shape_def t_def list_all_length)
  have val: "t ! i ! k ! a ! b = (if int k = labels ! i ! 0 ! a ! b then 1 else 0)"
    if "i < n" "k < num_classes" "a < h" "b < w" for i k a b
  proof -
    have "0 < h" using that by auto
    then have "size3 labels = w" using Z by simp
    then have "z ! k ! a ! b = 0" using that by (simp add: z_def)
    then show ?thesis
      using scatter_image_one_hot(2)[OF imgs[OF that(1)] zs ok[OF that(1)] that(2,3,4), of 1] that(1) len
      by (simp add: t_def)
  qed
  show ?thesis using res tsh val by blast
qed

theorem make_one_hot_witness:
  "has_shape example_labels 1 1 2 2 \<and>
   list_all (list_all (list_all (list_all (\<lambda>k. 0 \<le> k \<and> k < int 2)))) example_labels \<and>
   (\<exists>t. make_one_hot example_labels 2 ''cpu'' = Inr t \<and> has_shape t 1 2 2 2 \<and>
      (\<forall>i<1. \<forall>k<2. \<forall>a<2. \<forall>b<2.
         t ! i ! k ! a ! b = (if int k = example_labels ! i ! 0 ! a ! b then 1 else 0)))"
proof -
  have h1: "has_shape example_labels 1 1 2 2"
    by (simp add: example_labels_def has_shape_def has_shape3_def)
  have h2: "list_all (list_all (list_all (list_all (\<lambda>k. 0 \<le> k \<and> k < int 2)))) example_labels"
    by (simp add: example_labels_def)
  show ?thesis
    using h1 h2 make_one_hot_spec[OF h1 h2, of "''cpu''"] by simp
qed

end
